theory Spec2Isabelle
  imports Complex_Main
begin

section \<open>Numbers\<close>

text \<open>
  The backtester computes with Python and NumPy floats. Prices, strikes, rates and
  thresholds are modelled as real numbers (rounding is not modelled). Timestamps are
  whole seconds, \<^typ>\<open>int\<close>. The one place where the program leaves the finite
  numbers is the division in \<open>calculate_delta\<close>: its divisor is
  \<open>implied_volatility * np.sqrt(T)\<close>, a NumPy scalar, and it is zero when the implied
  volatility is \<open>0.0\<close>. NumPy does not raise there: it yields an infinity or NaN (with a
  warning). So a delta is a value of \<open>float64\<close>, which has the infinities and NaN.
  Strikes and underlying prices are Python floats: dividing by a strike of \<open>0.0\<close>
  raises \<open>ZeroDivisionError\<close>. The logarithm and the square root are the real ones,
  which are NumPy's for a positive ratio \<open>S / K\<close> and a positive time.
\<close>

datatype float64 = Num real | PInf | NInf | NaN

text \<open>NumPy's scalar division \<open>a / b\<close> of finite values, with a divisor that is never
  \<open>-0.0\<close>: the sign of an infinite quotient is the sign of the numerator.\<close>

definition fdiv :: "real \<Rightarrow> real \<Rightarrow> float64" where
  "fdiv a b =
     (if b \<noteq> 0 then Num (a / b)
      else if a = 0 then NaN
      else if 0 < a then PInf else NInf)"

fun fneg :: "float64 \<Rightarrow> float64" where
  "fneg (Num x) = Num (- x)"
| "fneg PInf = NInf"
| "fneg NInf = PInf"
| "fneg NaN = NaN"

fun fabs :: "float64 \<Rightarrow> float64" where
  "fabs (Num x) = Num \<bar>x\<bar>"
| "fabs PInf = PInf"
| "fabs NInf = PInf"
| "fabs NaN = NaN"

fun fsub :: "float64 \<Rightarrow> float64 \<Rightarrow> float64" where
  "fsub (Num x) (Num y) = Num (x - y)"
| "fsub NaN b = NaN"
| "fsub a NaN = NaN"
| "fsub PInf PInf = NaN"
| "fsub NInf NInf = NaN"
| "fsub PInf b = PInf"
| "fsub NInf b = NInf"
| "fsub (Num x) PInf = NInf"
| "fsub (Num x) NInf = PInf"

text \<open>\<open>a * m\<close> for a finite factor \<open>m\<close>.\<close>

fun fscale :: "float64 \<Rightarrow> real \<Rightarrow> float64" where
  "fscale (Num x) m = Num (x * m)"
| "fscale NaN m = NaN"
| "fscale PInf m = (if 0 < m then PInf else if m < 0 then NInf else NaN)"
| "fscale NInf m = (if 0 < m then NInf else if m < 0 then PInf else NaN)"

text \<open>\<open>a <= b\<close>: every comparison with NaN is false.\<close>

fun fle :: "float64 \<Rightarrow> float64 \<Rightarrow> bool" where
  "fle (Num x) (Num y) = (x \<le> y)"
| "fle NaN b = False"
| "fle a NaN = False"
| "fle NInf b = True"
| "fle a PInf = True"
| "fle a b = False"

definition fge :: "float64 \<Rightarrow> float64 \<Rightarrow> bool" where
  "fge a b = fle b a"

section \<open>Exceptions\<close>

text \<open>
  A Python exception that a function raises is the \<open>Inl\<close> value of its result. Two
  exceptions occur in the engine: \<open>ValueError\<close>, raised by \<open>brentq\<close> and caught in
  \<open>calculate_implied_volatility\<close>, and \<open>ZeroDivisionError\<close>, raised by the division
  \<open>S / K\<close> of two Python floats when the strike is \<open>0.0\<close> and caught nowhere.
\<close>

datatype py_error = ValueError | ZeroDivisionError

definition py_div :: "real \<Rightarrow> real \<Rightarrow> py_error + real" where
  "py_div a b = (if b = 0 then Inl ZeroDivisionError else Inr (a / b))"

section \<open>The numerical library\<close>

text \<open>
  \<open>scipy.stats.norm.cdf\<close> and the iteration of \<open>scipy.optimize.brentq\<close> are not code
  of the repository. They are parameters of the model: \<open>norm_cdf\<close> is the standard
  normal distribution function on the reals, \<open>brentq_root f a b\<close> the root that Brent's
  iteration returns for a bracket \<open>[a, b]\<close>.
\<close>

record scipy =
  norm_cdf :: "real \<Rightarrow> real"
  brentq_root :: "(real \<Rightarrow> py_error + real) \<Rightarrow> real \<Rightarrow> real \<Rightarrow> real"

text \<open>\<open>norm.cdf\<close> on a float: 1 at plus infinity, 0 at minus infinity, NaN at NaN.\<close>

fun cdf :: "scipy \<Rightarrow> float64 \<Rightarrow> float64" where
  "cdf lib (Num x) = Num (norm_cdf lib x)"
| "cdf lib PInf = Num 1"
| "cdf lib NInf = Num 0"
| "cdf lib NaN = NaN"

text \<open>
  Modelled from the spec: \<open>brentq\<close> is SciPy's, not in the repository. "Bracketed
  root-finding over [a, b] ... if no root brackets within that interval, the computation
  fails": \<open>brentq\<close> evaluates \<open>f\<close> at both ends, where an exception of \<open>f\<close> is
  raised, raises \<open>ValueError\<close> when \<open>f a\<close> and \<open>f b\<close> have the same sign, and
  otherwise returns the root of its iteration. (The function this program passes raises
  at every point or at none, see \<open>option_price_diff_raises\<close>.)
\<close>

definition brentq ::
  "scipy \<Rightarrow> (real \<Rightarrow> py_error + real) \<Rightarrow> real \<Rightarrow> real \<Rightarrow> py_error + real" where
  "brentq lib f a b =
     (case f a of
        Inl e \<Rightarrow> Inl e
      | Inr fa \<Rightarrow>
          (case f b of
             Inl e \<Rightarrow> Inl e
           | Inr fb \<Rightarrow> if 0 < fa * fb then Inl ValueError else Inr (brentq_root lib f a b)))"

section \<open>Pricing engine (option_utils.py)\<close>

datatype option_type = Call | Put

text \<open>The closure \<open>option_price_diff\<close> of \<open>calculate_implied_volatility\<close>. Its first
  operation is the division \<open>S / K\<close>.\<close>

definition option_price_diff ::
  "scipy \<Rightarrow> real \<Rightarrow> real \<Rightarrow> real \<Rightarrow> real \<Rightarrow> real \<Rightarrow> option_type \<Rightarrow> real
     \<Rightarrow> py_error + real" where
  "option_price_diff lib price S K T r kind sigma =
     (case py_div S K of
        Inl e \<Rightarrow> Inl e
      | Inr ratio \<Rightarrow>
          (let d1 = (ln ratio + (r + 0.5 * sigma ^ 2) * T) / (sigma * sqrt T);
               d2 = d1 - sigma * sqrt T;
               model_price =
                 (case kind of
                    Call \<Rightarrow> S * norm_cdf lib d1 - K * exp (- r * T) * norm_cdf lib d2
                  | Put \<Rightarrow> K * exp (- r * T) * norm_cdf lib (- d2) - S * norm_cdf lib (- d1))
           in Inr (model_price - price)))"

definition sigma_lower :: real where
  "sigma_lower = 1 / 1000000"

definition sigma_upper :: real where
  "sigma_upper = 5"

definition intrinsic_value :: "real \<Rightarrow> real \<Rightarrow> option_type \<Rightarrow> real" where
  "intrinsic_value S K kind = max 0 (if kind = Call then S - K else K - S)"

text \<open>\<open>calculate_implied_volatility\<close>. \<open>Inr None\<close> is the \<open>None\<close> returned by the
  handler of \<open>ValueError\<close>; any other exception of \<open>brentq\<close> is not caught.\<close>

definition calculate_implied_volatility ::
  "scipy \<Rightarrow> real \<Rightarrow> real \<Rightarrow> real \<Rightarrow> real \<Rightarrow> real \<Rightarrow> option_type
     \<Rightarrow> py_error + real option" where
  "calculate_implied_volatility lib price S K T r kind =
     (if price \<le> intrinsic_value S K kind + 1 / 1000000 then Inr (Some 0)
      else
        (case brentq lib (option_price_diff lib price S K T r kind) sigma_lower sigma_upper of
           Inl ValueError \<Rightarrow> Inr None
         | Inl e \<Rightarrow> Inl e
         | Inr sigma \<Rightarrow> Inr (Some sigma)))"

text \<open>\<open>calculate_delta\<close>: \<open>Inr None\<close> when the implied volatility could not be
  determined.\<close>

definition time_to_expiry :: "int \<Rightarrow> int \<Rightarrow> real" where
  "time_to_expiry expiry_timestamp current_timestamp =
     max (real_of_int (expiry_timestamp - current_timestamp) / (365 * 24 * 60 * 60))
         (1 / 1000000)"

definition calculate_delta ::
  "scipy \<Rightarrow> real \<Rightarrow> real \<Rightarrow> int \<Rightarrow> real \<Rightarrow> real \<Rightarrow> option_type \<Rightarrow> int
     \<Rightarrow> py_error + float64 option" where
  "calculate_delta lib price strike expiry_timestamp underlying rate kind current_timestamp =
     (let T = time_to_expiry expiry_timestamp current_timestamp in
      if T = 1 / 1000000 then
        (if kind = Put then Inr (Some (Num (if underlying < strike then - 1 else 0)))
         else Inr (Some (Num (if underlying > strike then 1 else 0))))
      else
        (case calculate_implied_volatility lib price underlying strike T rate kind of
           Inl e \<Rightarrow> Inl e
         | Inr None \<Rightarrow> Inr None
         | Inr (Some implied_volatility) \<Rightarrow>
             (case py_div underlying strike of
                Inl e \<Rightarrow> Inl e
              | Inr ratio \<Rightarrow>
                  (let d1 = fdiv (ln ratio + (rate + 0.5 * implied_volatility ^ 2) * T)
                                 (implied_volatility * sqrt T)
                   in Inr (Some (if kind = Call then cdf lib d1
                                 else fneg (cdf lib (fneg d1))))))))"

section \<open>Spread finder (spread_selector.py)\<close>

text \<open>
  A tick is the dictionary built by the data client; the keys the engine reads are kept.
  \<open>underlying_close\<close> is \<open>None\<close> when no stock bar matched the tick's timestamp. The
  historical data is a dictionary from timestamp to the ticks of that timestamp, read
  in insertion order: a list of pairs with distinct keys.
\<close>

record tick =
  tick_option_symbol :: string
  tick_timestamp :: int
  tick_midpoint :: real
  tick_strike_price :: real
  tick_expiry :: int
  tick_underlying_close :: "real option"

type_synonym historical_data = "(int \<times> tick list) list"

record OptionLeg =
  option_symbol :: string
  strike_price :: real
  underlying_price :: real
  delta :: float64
  option_price :: real
  timestamp :: int
  expiration_date :: int

record SpreadLegs =
  short_leg :: OptionLeg
  long_leg :: OptionLeg
  credit_received :: real
  entry_timestamp :: int
  spread_width :: real

definition initial_total_delta :: "SpreadLegs \<Rightarrow> float64" where
  "initial_total_delta spread =
     fsub (fabs (delta (short_leg spread))) (fabs (delta (long_leg spread)))"

record SpreadSelector =
  short_put_delta_range :: "real \<times> real"
  long_put_delta_range :: "real \<times> real"
  spread_width_range :: "real \<times> real"
  risk_free_rate :: real

definition create_option_leg :: "tick \<Rightarrow> real \<Rightarrow> float64 \<Rightarrow> OptionLeg" where
  "create_option_leg t underlying d =
     \<lparr>option_symbol = tick_option_symbol t, strike_price = tick_strike_price t,
      underlying_price = underlying, delta = d, option_price = tick_midpoint t,
      timestamp = tick_timestamp t, expiration_date = tick_expiry t\<rparr>"

text \<open>\<open>lo <= delta <= hi\<close> for a range \<open>(lo, hi)\<close>.\<close>

definition in_range :: "real \<times> real \<Rightarrow> float64 \<Rightarrow> bool" where
  "in_range rng d = (fle (Num (fst rng)) d \<and> fle d (Num (snd rng)))"

text \<open>The two candidate slots \<open>short_put\<close> and \<open>long_put\<close> of \<open>find_spread\<close>.\<close>

type_synonym slots = "OptionLeg option \<times> OptionLeg option"

text \<open>Lines 120 to 132: the \<open>if\<close> / \<open>elif\<close> that assigns a tick with delta \<open>d\<close>.\<close>

definition assign_leg :: "SpreadSelector \<Rightarrow> slots \<Rightarrow> tick \<Rightarrow> real \<Rightarrow> float64 \<Rightarrow> slots" where
  "assign_leg sel st t underlying d =
     (if fst st = None \<and> in_range (short_put_delta_range sel) d
        then (Some (create_option_leg t underlying d), snd st)
      else if in_range (long_put_delta_range sel) d
        then (fst st, Some (create_option_leg t underlying d))
      else st)"

text \<open>Lines 134 to 158: with both legs set, the width check. \<open>Inl\<close> is the spread
  returned, \<open>Inr\<close> the slots with which the scan goes on.\<close>

definition validate_spread :: "SpreadSelector \<Rightarrow> slots \<Rightarrow> tick \<Rightarrow> SpreadLegs + slots" where
  "validate_spread sel st t =
     (case st of
        (Some short_put, Some long_put) \<Rightarrow>
          (let width = \<bar>strike_price short_put - strike_price long_put\<bar> in
           if \<not> (fst (spread_width_range sel) \<le> width \<and> width \<le> snd (spread_width_range sel))
             then Inr (None, None)
           else Inl \<lparr>short_leg = short_put, long_leg = long_put,
                     credit_received = option_price short_put - option_price long_put,
                     entry_timestamp = tick_timestamp t, spread_width = width\<rparr>)
      | _ \<Rightarrow> Inr st)"

text \<open>The body of the inner loop, lines 89 to 158, for one tick: an exception raised by
  \<open>calculate_delta\<close>, or the spread returned, or the slots for the next tick.\<close>

definition process_tick ::
  "scipy \<Rightarrow> SpreadSelector \<Rightarrow> option_type \<Rightarrow> slots \<Rightarrow> tick
     \<Rightarrow> py_error + (SpreadLegs + slots)" where
  "process_tick lib sel kind st t =
     (case tick_underlying_close t of
        None \<Rightarrow> Inr (Inr st)
      | Some underlying \<Rightarrow>
          (case calculate_delta lib (tick_midpoint t) (tick_strike_price t) (tick_expiry t)
                  underlying (risk_free_rate sel) kind (tick_timestamp t) of
             Inl e \<Rightarrow> Inl e
           | Inr None \<Rightarrow> Inr (Inr st)
           | Inr (Some d) \<Rightarrow> Inr (validate_spread sel (assign_leg sel st t underlying d) t)))"

text \<open>The inner loop over the ticks of one timestamp, and the outer loop.\<close>

fun scan_ticks ::
  "scipy \<Rightarrow> SpreadSelector \<Rightarrow> option_type \<Rightarrow> slots \<Rightarrow> tick list
     \<Rightarrow> py_error + (SpreadLegs + slots)" where
  "scan_ticks lib sel kind st [] = Inr (Inr st)"
| "scan_ticks lib sel kind st (t # ts) =
     (case process_tick lib sel kind st t of
        Inl e \<Rightarrow> Inl e
      | Inr (Inl spread) \<Rightarrow> Inr (Inl spread)
      | Inr (Inr st') \<Rightarrow> scan_ticks lib sel kind st' ts)"

fun scan_timestamps ::
  "scipy \<Rightarrow> SpreadSelector \<Rightarrow> option_type \<Rightarrow> slots \<Rightarrow> historical_data
     \<Rightarrow> py_error + SpreadLegs option" where
  "scan_timestamps lib sel kind st [] = Inr None"
| "scan_timestamps lib sel kind st ((ts, tick_data_list) # rest) =
     (case scan_ticks lib sel kind st tick_data_list of
        Inl e \<Rightarrow> Inl e
      | Inr (Inl spread) \<Rightarrow> Inr (Some spread)
      | Inr (Inr st') \<Rightarrow> scan_timestamps lib sel kind st' rest)"

definition find_spread ::
  "scipy \<Rightarrow> SpreadSelector \<Rightarrow> historical_data \<Rightarrow> option_type
     \<Rightarrow> py_error + SpreadLegs option" where
  "find_spread lib sel historical_data_by_timestamp kind =
     scan_timestamps lib sel kind (None, None) historical_data_by_timestamp"

section \<open>Trade monitoring (spread_selector.py, backtester.py)\<close>

text \<open>The loop of \<open>calculate_current_spread_metrics\<close>, lines 206 to 213, over the
  ticks of one timestamp. Its state is \<open>(current_short_price, current_long_price,
  current_underlying_price)\<close>.\<close>

type_synonym located = "real option \<times> real option \<times> real option"

definition locate_tick :: "SpreadLegs \<Rightarrow> located \<Rightarrow> tick \<Rightarrow> located" where
  "locate_tick spread st t =
     (case st of (short_price, long_price, underlying) \<Rightarrow>
        if tick_option_symbol t = option_symbol (short_leg spread)
          then (Some (tick_midpoint t), long_price, tick_underlying_close t)
        else if tick_option_symbol t = option_symbol (long_leg spread)
          then (short_price, Some (tick_midpoint t),
                if underlying = None then tick_underlying_close t else underlying)
        else st)"

fun locate_prices :: "SpreadLegs \<Rightarrow> located \<Rightarrow> tick list \<Rightarrow> located" where
  "locate_prices spread st [] = st"
| "locate_prices spread st (t # ts) = locate_prices spread (locate_tick spread st t) ts"

text \<open>Python's truth value of a price that is a float or \<open>None\<close>: \<open>None\<close> and \<open>0.0\<close>
  are false.\<close>

definition truthy :: "real option \<Rightarrow> bool" where
  "truthy v = (case v of None \<Rightarrow> False | Some x \<Rightarrow> x \<noteq> 0)"

record metrics =
  current_spread_price :: real
  current_short_price :: real
  current_long_price :: real
  current_underlying_price :: real
  current_short_delta :: float64
  current_long_delta :: float64
  current_total_delta :: float64
  metrics_timestamp :: int

text \<open>\<open>calculate_current_spread_metrics\<close>. The short leg's delta is computed first,
  then the long leg's, and only then are the two tested for \<open>None\<close>. The last branch of
  the first \<open>case\<close> is never taken: with no tick no price is found, and the function has
  returned \<open>None\<close> before it reads \<open>current_data[0]\<close>.\<close>

definition calculate_current_spread_metrics ::
  "scipy \<Rightarrow> SpreadLegs \<Rightarrow> tick list \<Rightarrow> real \<Rightarrow> py_error + metrics option" where
  "calculate_current_spread_metrics lib spread current_data rate =
     (case locate_prices spread (None, None, None) current_data of
        (short_price, long_price, underlying) \<Rightarrow>
          if \<not> (truthy short_price \<and> truthy long_price \<and> truthy underlying) then Inr None
          else
            (case (short_price, long_price, underlying, current_data) of
               (Some sp, Some lp, Some un, t0 # _) \<Rightarrow>
                 (case calculate_delta lib sp (strike_price (short_leg spread))
                         (expiration_date (short_leg spread)) un rate Put (tick_timestamp t0) of
                    Inl e \<Rightarrow> Inl e
                  | Inr current_short_delta' \<Rightarrow>
                      (case calculate_delta lib lp (strike_price (long_leg spread))
                              (expiration_date (long_leg spread)) un rate Put
                              (tick_timestamp t0) of
                         Inl e \<Rightarrow> Inl e
                       | Inr current_long_delta' \<Rightarrow>
                           (case (current_short_delta', current_long_delta') of
                              (Some short_delta, Some long_delta) \<Rightarrow>
                                Inr (Some
                                  \<lparr>current_spread_price = sp - lp,
                                   current_short_price = sp,
                                   current_long_price = lp,
                                   current_underlying_price = un,
                                   current_short_delta = short_delta,
                                   current_long_delta = long_delta,
                                   current_total_delta =
                                     fsub (fabs short_delta) (fabs long_delta),
                                   metrics_timestamp = tick_timestamp t0\<rparr>)
                            | _ \<Rightarrow> Inr None)))
             | _ \<Rightarrow> Inr None))"

datatype exit_status = TargetProfit | DeltaStopLoss | AssignmentRisk | Expired

text \<open>\<open>_check_exit_conditions\<close>: the status and the theoretical P&L, or \<open>None\<close>.\<close>

definition check_exit_conditions ::
  "SpreadLegs \<Rightarrow> metrics \<Rightarrow> real \<Rightarrow> float64 \<Rightarrow> (exit_status \<times> real) option" where
  "check_exit_conditions spread m target_profit_price delta_stop_loss =
     (if current_spread_price m \<le> target_profit_price
        then Some (TargetProfit, (credit_received spread - current_spread_price m) * 100)
      else if fge (current_total_delta m) delta_stop_loss
        then Some (DeltaStopLoss, (credit_received spread - current_spread_price m) * 100)
      else if current_underlying_price m \<le> strike_price (short_leg spread)
        then Some (AssignmentRisk,
                   (credit_received spread
                     - (strike_price (short_leg spread) - current_underlying_price m)) * 100)
      else None)"

record ZeroDTEBacktester =
  bt_risk_free_rate :: real
  delta_stop_loss_multiplier :: real
  target_profit_percentage :: real
  spread_selector :: SpreadSelector

record trade_result =
  status :: exit_status
  theoretical_pnl :: real
  short_put_symbol :: string
  long_put_symbol :: string
  entry_time :: int
  exit_time :: int
  result_credit_received :: real
  result_spread_width :: real
  iteration :: "nat option"

definition make_result :: "SpreadLegs \<Rightarrow> exit_status \<Rightarrow> real \<Rightarrow> int \<Rightarrow> trade_result" where
  "make_result spread st pnl exit_ts =
     \<lparr>status = st, theoretical_pnl = pnl,
      short_put_symbol = option_symbol (short_leg spread),
      long_put_symbol = option_symbol (long_leg spread),
      entry_time = entry_timestamp spread, exit_time = exit_ts,
      result_credit_received = credit_received spread,
      result_spread_width = spread_width spread, iteration = None\<rparr>"

text \<open>The monitoring loop of \<open>_execute_single_trade\<close>, lines 139 to 167: \<open>Inr None\<close>
  when the timestamps are exhausted with no exit.\<close>

fun monitor ::
  "scipy \<Rightarrow> ZeroDTEBacktester \<Rightarrow> SpreadLegs \<Rightarrow> real \<Rightarrow> float64 \<Rightarrow> historical_data
     \<Rightarrow> py_error + trade_result option" where
  "monitor lib bt spread target_profit_price delta_stop_loss [] = Inr None"
| "monitor lib bt spread target_profit_price delta_stop_loss ((ts, current_data) # rest) =
     (if ts \<le> entry_timestamp spread
        then monitor lib bt spread target_profit_price delta_stop_loss rest
      else
        (case calculate_current_spread_metrics lib spread current_data (bt_risk_free_rate bt) of
           Inl e \<Rightarrow> Inl e
         | Inr None \<Rightarrow> monitor lib bt spread target_profit_price delta_stop_loss rest
         | Inr (Some m) \<Rightarrow>
             (case check_exit_conditions spread m target_profit_price delta_stop_loss of
                None \<Rightarrow> monitor lib bt spread target_profit_price delta_stop_loss rest
              | Some (st, pnl) \<Rightarrow> Inr (Some (make_result spread st pnl ts)))))"

text \<open>\<open>_execute_single_trade\<close>. \<open>max(filtered_data.keys())\<close> is taken of a dictionary
  that is not empty, since a spread was found in it.\<close>

definition execute_single_trade ::
  "scipy \<Rightarrow> ZeroDTEBacktester \<Rightarrow> historical_data \<Rightarrow> py_error + trade_result option" where
  "execute_single_trade lib bt filtered_data =
     (case find_spread lib (spread_selector bt) filtered_data Put of
        Inl e \<Rightarrow> Inl e
      | Inr None \<Rightarrow> Inr None
      | Inr (Some spread) \<Rightarrow>
          (let delta_stop_loss =
                 fscale (initial_total_delta spread) (delta_stop_loss_multiplier bt);
               target_profit_price = credit_received spread * target_profit_percentage bt
           in case monitor lib bt spread target_profit_price delta_stop_loss filtered_data of
                Inl e \<Rightarrow> Inl e
              | Inr (Some result) \<Rightarrow> Inr (Some result)
              | Inr None \<Rightarrow>
                  (case map fst filtered_data of
                     [] \<Rightarrow> Inr None
                   | k # ks \<Rightarrow>
                       Inr (Some (make_result spread Expired (credit_received spread * 100)
                                    (fold max ks k))))))"

section \<open>Backtest orchestrator (backtester.py)\<close>

text \<open>The \<open>while iteration <= max_iterations\<close> loop of \<open>run\<close>, lines 258 to 290, and
  \<open>run\<close> itself. The result is the list \<open>self.results\<close> as the loop leaves it,
  together with the exception that ended the loop, if one did.\<close>

function run_loop ::
  "scipy \<Rightarrow> ZeroDTEBacktester \<Rightarrow> historical_data \<Rightarrow> nat \<Rightarrow> int \<Rightarrow> nat
     \<Rightarrow> trade_result list \<times> py_error option" where
  "run_loop lib bt historical_data max_iterations current_start_time iter =
     (if iter \<le> max_iterations then
        (let filtered_data = filter (\<lambda>(ts, d). current_start_time \<le> ts) historical_data in
         if filtered_data = [] then ([], None)
         else
           (case execute_single_trade lib bt filtered_data of
              Inl e \<Rightarrow> ([], Some e)
            | Inr None \<Rightarrow> ([], None)
            | Inr (Some result) \<Rightarrow>
                (case run_loop lib bt historical_data max_iterations (exit_time result + 60)
                        (iter + 1) of
                   (results, raised) \<Rightarrow> (result\<lparr>iteration := Some iter\<rparr> # results, raised))))
      else ([], None))"
  by pat_completeness auto
termination
  by (relation "measure (\<lambda>(lib, bt, d, max_iterations, cur, iter). Suc max_iterations - iter)")
     auto

declare run_loop.simps [simp del]

definition run ::
  "scipy \<Rightarrow> ZeroDTEBacktester \<Rightarrow> historical_data \<Rightarrow> nat
     \<Rightarrow> trade_result list \<times> py_error option" where
  "run lib bt historical_data max_iterations =
     (case map fst historical_data of
        [] \<Rightarrow> ([], None)
      | k # ks \<Rightarrow> run_loop lib bt historical_data max_iterations (fold min ks k) 1)"

section \<open>Predicates of the statements\<close>

definition width_ok :: "SpreadSelector \<Rightarrow> real \<Rightarrow> bool" where
  "width_ok sel width =
     (fst (spread_width_range sel) \<le> width \<and> width \<le> snd (spread_width_range sel))"

definition all_ticks :: "historical_data \<Rightarrow> tick list" where
  "all_ticks historical_data_by_timestamp = concat (map snd historical_data_by_timestamp)"

text \<open>A leg carries the symbol and the strike of one of the ticks \<open>ts\<close>.\<close>

definition leg_of :: "tick list \<Rightarrow> OptionLeg \<Rightarrow> bool" where
  "leg_of ts leg =
     list_ex (\<lambda>t. option_symbol leg = tick_option_symbol t
                  \<and> strike_price leg = tick_strike_price t) ts"

definition slots_of :: "tick list \<Rightarrow> slots \<Rightarrow> bool" where
  "slots_of ts st =
     ((case fst st of None \<Rightarrow> True | Some leg \<Rightarrow> leg_of ts leg)
      \<and> (case snd st of None \<Rightarrow> True | Some leg \<Rightarrow> leg_of ts leg))"

text \<open>Ticks with one symbol have one strike (the strike is part of the symbol).\<close>

definition strike_by_symbol :: "tick list \<Rightarrow> bool" where
  "strike_by_symbol ts =
     list_all (\<lambda>t1. list_all (\<lambda>t2. tick_option_symbol t1 = tick_option_symbol t2
                                    \<longrightarrow> tick_strike_price t1 = tick_strike_price t2) ts) ts"

text \<open>What holds of a spread found among the ticks \<open>ts\<close>.\<close>

definition spread_from :: "SpreadSelector \<Rightarrow> tick list \<Rightarrow> SpreadLegs \<Rightarrow> bool" where
  "spread_from sel ts spread =
     (leg_of ts (short_leg spread) \<and> leg_of ts (long_leg spread)
      \<and> spread_width spread
          = \<bar>strike_price (short_leg spread) - strike_price (long_leg spread)\<bar>
      \<and> width_ok sel (spread_width spread)
      \<and> list_ex (\<lambda>t. entry_timestamp spread = tick_timestamp t) ts)"

text \<open>The input contract of the engine: every tick stands under its own timestamp.\<close>

definition timestamps_match :: "historical_data \<Rightarrow> bool" where
  "timestamps_match historical_data_by_timestamp =
     list_all (\<lambda>(k, tick_data_list). list_all (\<lambda>t. tick_timestamp t = k) tick_data_list)
       historical_data_by_timestamp"

text \<open>Each trade is entered at least \<open>gap\<close> seconds after the exit of the one before.\<close>

fun trades_apart :: "int \<Rightarrow> trade_result list \<Rightarrow> bool" where
  "trades_apart gap (r1 # r2 # rs) =
     (exit_time r1 + gap \<le> entry_time r2 \<and> trades_apart gap (r2 # rs))"
| "trades_apart gap rs = True"

section \<open>Example inputs\<close>

text \<open>
  Concrete inputs on which the theorems below are exercised. \<open>sample_scipy\<close> is a
  small numerical library for them: the distribution function of a point mass at 0, and
  an iteration that returns the lower end of its bracket. The examples state no
  implied volatility or delta that depends on this choice: where a root is found it is
  named as the library's root, and where none is bracketed the price lies above every
  model price of any distribution function. Every tick of the other examples is quoted
  at or after its expiry, or is skipped before its delta is computed. The scenario is the one of the
  specification: short strike 570, long strike 567, width 3, credit 1.20, target
  fraction 0.5; the spread price falls to 0.55.
\<close>

definition sample_scipy :: scipy where
  "sample_scipy =
     \<lparr>norm_cdf = (\<lambda>x. if x < 0 then 0 else 1), brentq_root = (\<lambda>f a b. a)\<rparr>"

definition scenario_spread :: SpreadLegs where
  "scenario_spread =
     \<lparr>short_leg = \<lparr>option_symbol = ''SPY250616P00570000'', strike_price = 570,
                    underlying_price = 572, delta = Num (- 3 / 10), option_price = 2,
                    timestamp = 0, expiration_date = 3600\<rparr>,
      long_leg = \<lparr>option_symbol = ''SPY250616P00567000'', strike_price = 567,
                   underlying_price = 572, delta = Num (- 1 / 4), option_price = 4 / 5,
                   timestamp = 0, expiration_date = 3600\<rparr>,
      credit_received = 6 / 5, entry_timestamp = 0, spread_width = 3\<rparr>"

definition scenario_backtester :: ZeroDTEBacktester where
  "scenario_backtester =
     \<lparr>bt_risk_free_rate = 1 / 100, delta_stop_loss_multiplier = 5 / 2,
      target_profit_percentage = 1 / 2,
      spread_selector = \<lparr>short_put_delta_range = (- 3 / 5, - 1 / 5),
                          long_put_delta_range = (- 2 / 5, - 1 / 5),
                          spread_width_range = (2, 4), risk_free_rate = 1 / 100\<rparr>\<rparr>"

definition quote :: "string \<Rightarrow> int \<Rightarrow> real \<Rightarrow> real \<Rightarrow> int \<Rightarrow> real option \<Rightarrow> tick" where
  "quote name ts mid strike expiry und =
     \<lparr>tick_option_symbol = name, tick_timestamp = ts, tick_midpoint = mid,
      tick_strike_price = strike, tick_expiry = expiry, tick_underlying_close = und\<rparr>"

definition scenario_exit_ticks :: "tick list" where
  "scenario_exit_ticks =
     [quote ''SPY250616P00570000'' 3600 (21 / 20) 570 3600 (Some 569),
      quote ''SPY250616P00567000'' 3600 (1 / 2) 567 3600 (Some 569)]"

definition scenario_exit_metrics :: metrics where
  "scenario_exit_metrics =
     \<lparr>current_spread_price = 11 / 20, current_short_price = 21 / 20,
      current_long_price = 1 / 2, current_underlying_price = 569,
      current_short_delta = Num (- 1), current_long_delta = Num 0,
      current_total_delta = Num 1, metrics_timestamp = 3600\<rparr>"

text \<open>Half an hour before the expiry the short put is quoted at 600, above its strike:
  no volatility gives such a price.\<close>

definition failed_delta_ticks :: "tick list" where
  "failed_delta_ticks =
     [quote ''SPY250616P00570000'' 1800 600 570 3600 (Some 571),
      quote ''SPY250616P00567000'' 1800 (1 / 2) 567 3600 (Some 571)]"

text \<open>A group with a tick of the short leg only.\<close>

definition short_only_ticks :: "tick list" where
  "short_only_ticks = [quote ''SPY250616P00570000'' 3540 2 570 3600 (Some 571)]"

definition zero_long_ticks :: "tick list" where
  "zero_long_ticks =
     [quote ''SPY250616P00570000'' 3540 (1 / 2) 570 3600 (Some 569),
      quote ''SPY250616P00567000'' 3540 0 567 3600 (Some 569)]"

definition fallback_ticks :: "tick list" where
  "fallback_ticks =
     [quote ''SPY250616P00570000'' 3600 2 570 3600 None,
      quote ''SPY250616P00567000'' 3600 1 567 3600 (Some 569)]"

definition default_selector :: SpreadSelector where
  "default_selector =
     \<lparr>short_put_delta_range = (- 3 / 5, - 1 / 5), long_put_delta_range = (- 2 / 5, - 1 / 5),
      spread_width_range = (2, 4), risk_free_rate = 1 / 100\<rparr>"

text \<open>A selector whose bands hold the deltas of expired puts: \<open>-1.0\<close> in the money,
  \<open>0.0\<close> out of the money.\<close>

definition expiry_selector :: "real \<times> real \<Rightarrow> SpreadSelector" where
  "expiry_selector widths =
     \<lparr>short_put_delta_range = (- 1, - 1 / 2), long_put_delta_range = (- 1, 0),
      spread_width_range = widths, risk_free_rate = 1 / 100\<rparr>"

text \<open>Three puts of one expiry (3600), quoted at or after it with the underlying at
  565: each has delta \<open>-1.0\<close>.\<close>

definition put_570 :: "int \<Rightarrow> tick" where
  "put_570 ts = quote ''SPY250616P00570000'' ts 6 570 3600 (Some 565)"

definition put_569 :: "int \<Rightarrow> tick" where
  "put_569 ts = quote ''SPY250616P00569000'' ts 5 569 3600 (Some 565)"

definition put_567 :: "int \<Rightarrow> tick" where
  "put_567 ts = quote ''SPY250616P00567000'' ts 3 567 3600 (Some 565)"

text \<open>Four timestamps after the expiry (0) of the two puts; two trades are made.\<close>

definition two_trade_backtester :: ZeroDTEBacktester where
  "two_trade_backtester =
     \<lparr>bt_risk_free_rate = 1 / 100, delta_stop_loss_multiplier = 5 / 2,
      target_profit_percentage = 1 / 2, spread_selector = expiry_selector (2, 4)\<rparr>"

definition two_trade_later :: historical_data where
  "two_trade_later =
     [(180, [quote ''SPY250616P00570000'' 180 2 570 0 (Some 569),
             quote ''SPY250616P00567000'' 180 (1 / 2) 567 0 (Some 569)]),
      (240, [quote ''SPY250616P00570000'' 240 (19 / 10) 570 0 (Some 569),
             quote ''SPY250616P00567000'' 240 (1 / 2) 567 0 (Some 569)])]"

definition two_trade_data :: historical_data where
  "two_trade_data =
     (60, [quote ''SPY250616P00570000'' 60 2 570 0 (Some 569),
           quote ''SPY250616P00567000'' 60 (1 / 2) 567 0 (Some 569)])
     # (120, [quote ''SPY250616P00570000'' 120 1 570 0 (Some 571),
              quote ''SPY250616P00567000'' 120 (1 / 2) 567 0 (Some 571)])
     # two_trade_later"

definition two_trade_leg :: "real \<Rightarrow> real \<Rightarrow> float64 \<Rightarrow> int \<Rightarrow> OptionLeg" where
  "two_trade_leg strike mid d ts =
     \<lparr>option_symbol = (if strike = 570 then ''SPY250616P00570000'' else ''SPY250616P00567000''),
      strike_price = strike, underlying_price = 569, delta = d, option_price = mid,
      timestamp = ts, expiration_date = 0\<rparr>"

definition two_trade_spread :: "int \<Rightarrow> SpreadLegs" where
  "two_trade_spread ts =
     \<lparr>short_leg = two_trade_leg 570 2 (Num (- 1)) ts,
      long_leg = two_trade_leg 567 (1 / 2) (Num 0) ts,
      credit_received = 3 / 2, entry_timestamp = ts, spread_width = 3\<rparr>"

text \<open>A trade entered at 60 at whose next timestamp the target-profit, the delta-stop-loss
  and the assignment-risk condition hold together.\<close>

definition priority_backtester :: ZeroDTEBacktester where
  "priority_backtester =
     \<lparr>bt_risk_free_rate = 1 / 100, delta_stop_loss_multiplier = 1 / 2,
      target_profit_percentage = 1 / 2, spread_selector = expiry_selector (2, 4)\<rparr>"

definition priority_entry :: historical_data where
  "priority_entry =
     [(60, [quote ''SPY250616P00570000'' 60 2 570 0 (Some 569),
            quote ''SPY250616P00567000'' 60 (1 / 2) 567 0 (Some 569)])]"

definition priority_exit_ticks :: "tick list" where
  "priority_exit_ticks =
     [quote ''SPY250616P00570000'' 120 1 570 0 (Some 569),
      quote ''SPY250616P00567000'' 120 (1 / 2) 567 0 (Some 569)]"

definition priority_exit_metrics :: metrics where
  "priority_exit_metrics =
     \<lparr>current_spread_price = 1 / 2, current_short_price = 1,
      current_long_price = 1 / 2, current_underlying_price = 569,
      current_short_delta = Num (- 1), current_long_delta = Num 0,
      current_total_delta = Num 1, metrics_timestamp = 120\<rparr>"

section \<open>Exit conditions\<close>

lemma scenario_metrics:
  "calculate_current_spread_metrics sample_scipy scenario_spread scenario_exit_ticks (1 / 100)
     = Inr (Some scenario_exit_metrics)"
  by (simp add: calculate_current_spread_metrics_def scenario_spread_def
      scenario_exit_ticks_def scenario_exit_metrics_def quote_def locate_tick_def truthy_def
      calculate_delta_def time_to_expiry_def)

lemma monitor_append:
  "monitor lib bt spread tpp dsl (pre @ xs) =
     (case monitor lib bt spread tpp dsl pre of
        Inr None \<Rightarrow> monitor lib bt spread tpp dsl xs
      | outcome \<Rightarrow> outcome)"
proof (induction pre)
  case Nil
  show ?case by simp
next
  case (Cons x pre)
  obtain ts current_data where x: "x = (ts, current_data)" by (cases x)
  show ?case
  proof (cases "ts \<le> entry_timestamp spread")
    case True
    with Cons show ?thesis by (simp add: x)
  next
    case False
    show ?thesis
    proof (cases "calculate_current_spread_metrics lib spread current_data
                    (bt_risk_free_rate bt)")
      case (Inl e)
      with False show ?thesis by (simp add: x)
    next
      case (Inr found)
      with False Cons show ?thesis by (simp add: x split: option.splits)
    qed
  qed
qed

lemma monitor_exit:
  assumes "monitor lib bt spread tpp dsl earlier = Inr None"
    and "entry_timestamp spread < ts"
    and "calculate_current_spread_metrics lib spread current_data (bt_risk_free_rate bt)
           = Inr (Some m)"
    and "check_exit_conditions spread m tpp dsl = Some (st, pnl)"
  shows "monitor lib bt spread tpp dsl (earlier @ (ts, current_data) # later)
           = Inr (Some (make_result spread st pnl ts))"
  using assms by (simp add: monitor_append)

lemma make_result_fields:
  "status (make_result spread st pnl ts) = st"
  "theoretical_pnl (make_result spread st pnl ts) = pnl"
  "exit_time (make_result spread st pnl ts) = ts"
  "entry_time (make_result spread st pnl ts) = entry_timestamp spread"
  by (simp_all add: make_result_def)

lemma execute_monitored:
  assumes "find_spread lib (spread_selector bt) filtered_data Put = Inr (Some spread)"
    and "monitor lib bt spread (credit_received spread * target_profit_percentage bt)
           (fscale (initial_total_delta spread) (delta_stop_loss_multiplier bt)) filtered_data
         = Inr (Some r)"
  shows "execute_single_trade lib bt filtered_data = Inr (Some r)"
  using assms by (simp add: execute_single_trade_def Let_def)

text \<open>
  C1. Exit conditions are tried in the order target profit, delta stop loss, assignment
  risk, and the first that holds decides the result, whatever the later conditions
  are. At a monitored timestamp (one after the entry, reached with no exit before it,
  whose metrics are available) where both the target-profit and the delta-stop-loss
  condition hold, the monitor returns an outcome whose status is target profit, not
  delta stop loss, with that timestamp as exit time; and this outcome is the one that
  \<open>_execute_single_trade\<close> returns for the spread it found, with the thresholds it
  computes from that spread.
\<close>

theorem exit_priority:
  "(current_spread_price m \<le> tpp \<longrightarrow>
      check_exit_conditions spread m tpp dsl =
        Some (TargetProfit, (credit_received spread - current_spread_price m) * 100))
   \<and> (\<not> current_spread_price m \<le> tpp \<and> fge (current_total_delta m) dsl \<longrightarrow>
      check_exit_conditions spread m tpp dsl =
        Some (DeltaStopLoss, (credit_received spread - current_spread_price m) * 100))
   \<and> (\<not> current_spread_price m \<le> tpp \<and> \<not> fge (current_total_delta m) dsl
        \<and> current_underlying_price m \<le> strike_price (short_leg spread) \<longrightarrow>
      check_exit_conditions spread m tpp dsl =
        Some (AssignmentRisk,
              (credit_received spread
                - (strike_price (short_leg spread) - current_underlying_price m)) * 100))
   \<and> (\<not> current_spread_price m \<le> tpp \<and> \<not> fge (current_total_delta m) dsl
        \<and> \<not> current_underlying_price m \<le> strike_price (short_leg spread) \<longrightarrow>
      check_exit_conditions spread m tpp dsl = None)
   \<and> (monitor lib bt spread tpp dsl earlier = Inr None
        \<and> entry_timestamp spread < ts
        \<and> calculate_current_spread_metrics lib spread current_data (bt_risk_free_rate bt)
            = Inr (Some m)
        \<and> current_spread_price m \<le> tpp \<and> fge (current_total_delta m) dsl \<longrightarrow>
      monitor lib bt spread tpp dsl (earlier @ (ts, current_data) # later) =
        Inr (Some (make_result spread TargetProfit
                ((credit_received spread - current_spread_price m) * 100) ts))
      \<and> (\<exists>r. monitor lib bt spread tpp dsl (earlier @ (ts, current_data) # later)
                = Inr (Some r)
              \<and> status r = TargetProfit \<and> status r \<noteq> DeltaStopLoss
              \<and> exit_time r = ts
              \<and> theoretical_pnl r = (credit_received spread - current_spread_price m) * 100))
   \<and> (find_spread lib (spread_selector bt) (earlier @ (ts, current_data) # later) Put
          = Inr (Some spread)
        \<and> monitor lib bt spread (credit_received spread * target_profit_percentage bt)
            (fscale (initial_total_delta spread) (delta_stop_loss_multiplier bt)) earlier
          = Inr None
        \<and> entry_timestamp spread < ts
        \<and> calculate_current_spread_metrics lib spread current_data (bt_risk_free_rate bt)
            = Inr (Some m)
        \<and> current_spread_price m \<le> credit_received spread * target_profit_percentage bt
        \<and> fge (current_total_delta m)
              (fscale (initial_total_delta spread) (delta_stop_loss_multiplier bt)) \<longrightarrow>
      (\<exists>r. execute_single_trade lib bt (earlier @ (ts, current_data) # later) = Inr (Some r)
            \<and> status r = TargetProfit \<and> status r \<noteq> DeltaStopLoss
            \<and> exit_time r = ts
            \<and> theoretical_pnl r = (credit_received spread - current_spread_price m) * 100))"
proof -
  have order: "(current_spread_price m \<le> tpp \<longrightarrow>
      check_exit_conditions spread m tpp dsl =
        Some (TargetProfit, (credit_received spread - current_spread_price m) * 100))
   \<and> (\<not> current_spread_price m \<le> tpp \<and> fge (current_total_delta m) dsl \<longrightarrow>
      check_exit_conditions spread m tpp dsl =
        Some (DeltaStopLoss, (credit_received spread - current_spread_price m) * 100))
   \<and> (\<not> current_spread_price m \<le> tpp \<and> \<not> fge (current_total_delta m) dsl
        \<and> current_underlying_price m \<le> strike_price (short_leg spread) \<longrightarrow>
      check_exit_conditions spread m tpp dsl =
        Some (AssignmentRisk,
              (credit_received spread
                - (strike_price (short_leg spread) - current_underlying_price m)) * 100))
   \<and> (\<not> current_spread_price m \<le> tpp \<and> \<not> fge (current_total_delta m) dsl
        \<and> \<not> current_underlying_price m \<le> strike_price (short_leg spread) \<longrightarrow>
      check_exit_conditions spread m tpp dsl = None)"
    by (simp add: check_exit_conditions_def)
  have first: "check_exit_conditions spread m p d =
        Some (TargetProfit, (credit_received spread - current_spread_price m) * 100)"
    if "current_spread_price m \<le> p" for p d
    using that by (simp add: check_exit_conditions_def)
  have monitored: "monitor lib bt spread tpp dsl earlier = Inr None
        \<and> entry_timestamp spread < ts
        \<and> calculate_current_spread_metrics lib spread current_data (bt_risk_free_rate bt)
            = Inr (Some m)
        \<and> current_spread_price m \<le> tpp \<and> fge (current_total_delta m) dsl \<longrightarrow>
      monitor lib bt spread tpp dsl (earlier @ (ts, current_data) # later) =
        Inr (Some (make_result spread TargetProfit
                ((credit_received spread - current_spread_price m) * 100) ts))
      \<and> (\<exists>r. monitor lib bt spread tpp dsl (earlier @ (ts, current_data) # later)
                = Inr (Some r)
              \<and> status r = TargetProfit \<and> status r \<noteq> DeltaStopLoss
              \<and> exit_time r = ts
              \<and> theoretical_pnl r = (credit_received spread - current_spread_price m) * 100)"
  proof (intro impI; elim conjE)
    assume a: "monitor lib bt spread tpp dsl earlier = Inr None"
      "entry_timestamp spread < ts"
      "calculate_current_spread_metrics lib spread current_data (bt_risk_free_rate bt)
         = Inr (Some m)"
      "current_spread_price m \<le> tpp"
    have "monitor lib bt spread tpp dsl (earlier @ (ts, current_data) # later) =
        Inr (Some (make_result spread TargetProfit
                ((credit_received spread - current_spread_price m) * 100) ts))"
      using a(1,2,3) first [OF a(4)] by (rule monitor_exit)
    then show "monitor lib bt spread tpp dsl (earlier @ (ts, current_data) # later) =
        Inr (Some (make_result spread TargetProfit
                ((credit_received spread - current_spread_price m) * 100) ts))
      \<and> (\<exists>r. monitor lib bt spread tpp dsl (earlier @ (ts, current_data) # later)
                = Inr (Some r)
              \<and> status r = TargetProfit \<and> status r \<noteq> DeltaStopLoss
              \<and> exit_time r = ts
              \<and> theoretical_pnl r = (credit_received spread - current_spread_price m) * 100)"
      by (simp add: make_result_fields)
  qed
  have executed: "find_spread lib (spread_selector bt) (earlier @ (ts, current_data) # later) Put
          = Inr (Some spread)
        \<and> monitor lib bt spread (credit_received spread * target_profit_percentage bt)
            (fscale (initial_total_delta spread) (delta_stop_loss_multiplier bt)) earlier
          = Inr None
        \<and> entry_timestamp spread < ts
        \<and> calculate_current_spread_metrics lib spread current_data (bt_risk_free_rate bt)
            = Inr (Some m)
        \<and> current_spread_price m \<le> credit_received spread * target_profit_percentage bt
        \<and> fge (current_total_delta m)
              (fscale (initial_total_delta spread) (delta_stop_loss_multiplier bt)) \<longrightarrow>
      (\<exists>r. execute_single_trade lib bt (earlier @ (ts, current_data) # later) = Inr (Some r)
            \<and> status r = TargetProfit \<and> status r \<noteq> DeltaStopLoss
            \<and> exit_time r = ts
            \<and> theoretical_pnl r = (credit_received spread - current_spread_price m) * 100)"
  proof (intro impI; elim conjE)
    let ?tpp = "credit_received spread * target_profit_percentage bt"
    let ?dsl = "fscale (initial_total_delta spread) (delta_stop_loss_multiplier bt)"
    assume a: "find_spread lib (spread_selector bt) (earlier @ (ts, current_data) # later) Put
          = Inr (Some spread)"
      "monitor lib bt spread ?tpp ?dsl earlier = Inr None"
      "entry_timestamp spread < ts"
      "calculate_current_spread_metrics lib spread current_data (bt_risk_free_rate bt)
         = Inr (Some m)"
      "current_spread_price m \<le> ?tpp"
    have "monitor lib bt spread ?tpp ?dsl (earlier @ (ts, current_data) # later) =
        Inr (Some (make_result spread TargetProfit
                ((credit_received spread - current_spread_price m) * 100) ts))"
      using a(2,3,4) first [OF a(5)] by (rule monitor_exit)
    with a(1) have "execute_single_trade lib bt (earlier @ (ts, current_data) # later) =
        Inr (Some (make_result spread TargetProfit
                ((credit_received spread - current_spread_price m) * 100) ts))"
      by (rule execute_monitored)
    then show "\<exists>r. execute_single_trade lib bt (earlier @ (ts, current_data) # later)
            = Inr (Some r)
          \<and> status r = TargetProfit \<and> status r \<noteq> DeltaStopLoss
          \<and> exit_time r = ts
          \<and> theoretical_pnl r = (credit_received spread - current_spread_price m) * 100"
      by (simp add: make_result_fields)
  qed
  from order monitored executed show ?thesis
    by (intro conjI) (elim conjE, assumption)+
qed

lemma priority_spread:
  "find_spread sample_scipy (expiry_selector (2, 4))
     (priority_entry @ (120, priority_exit_ticks) # []) Put = Inr (Some (two_trade_spread 60))"
  by (simp add: priority_entry_def priority_exit_ticks_def find_spread_def process_tick_def
      quote_def calculate_delta_def time_to_expiry_def expiry_selector_def in_range_def
      assign_leg_def validate_spread_def create_option_leg_def two_trade_spread_def
      two_trade_leg_def)

lemma priority_metrics:
  "calculate_current_spread_metrics sample_scipy (two_trade_spread 60) priority_exit_ticks
     (1 / 100) = Inr (Some priority_exit_metrics)"
  by (simp add: calculate_current_spread_metrics_def two_trade_spread_def two_trade_leg_def
      priority_exit_ticks_def priority_exit_metrics_def quote_def locate_tick_def truthy_def
      calculate_delta_def time_to_expiry_def)

lemma priority_thresholds:
  "fscale (initial_total_delta (two_trade_spread ts)) (1 / 2) = Num (1 / 2)"
  "credit_received (two_trade_spread ts) = 3 / 2"
  "entry_timestamp (two_trade_spread ts) = ts"
  by (simp_all add: initial_total_delta_def two_trade_spread_def two_trade_leg_def)

lemma priority_not_entered:
  "monitor sample_scipy priority_backtester (two_trade_spread 60) tpp dsl priority_entry
     = Inr None"
  by (simp add: priority_entry_def priority_thresholds)

theorem exit_priority_witness:
  "check_exit_conditions scenario_spread scenario_exit_metrics (3 / 5) (Num (1 / 8))
     = Some (TargetProfit, 65)
   \<and> monitor sample_scipy scenario_backtester scenario_spread (3 / 5) (Num (1 / 8))
       [(3600, scenario_exit_ticks)]
     = Inr (Some \<lparr>status = TargetProfit, theoretical_pnl = 65,
                   short_put_symbol = ''SPY250616P00570000'',
                   long_put_symbol = ''SPY250616P00567000'',
                   entry_time = 0, exit_time = 3600, result_credit_received = 6 / 5,
                   result_spread_width = 3, iteration = None\<rparr>)
   \<and> check_exit_conditions scenario_spread scenario_exit_metrics (1 / 2) (Num (1 / 8))
     = Some (DeltaStopLoss, 65)
   \<and> check_exit_conditions scenario_spread scenario_exit_metrics (1 / 2) (Num 2)
     = Some (AssignmentRisk, 20)
   \<and> check_exit_conditions scenario_spread
       (scenario_exit_metrics\<lparr>current_underlying_price := 571\<rparr>) (1 / 2) (Num 2) = None
   \<and> (\<exists>r. execute_single_trade sample_scipy priority_backtester
             (priority_entry @ (120, priority_exit_ticks) # []) = Inr (Some r)
          \<and> status r = TargetProfit \<and> status r \<noteq> DeltaStopLoss \<and> exit_time r = 120
          \<and> theoretical_pnl r = 100)"
proof -
  note a = exit_priority [where m = scenario_exit_metrics and tpp = "3 / 5"
      and spread = scenario_spread and dsl = "Num (1 / 8)" and lib = sample_scipy
      and bt = scenario_backtester and earlier = "[]" and ts = 3600
      and current_data = scenario_exit_ticks and later = "[]"]
  note b = exit_priority [where m = scenario_exit_metrics and tpp = "1 / 2"
      and spread = scenario_spread and dsl = "Num (1 / 8)"]
  note c = exit_priority [where m = scenario_exit_metrics and tpp = "1 / 2"
      and spread = scenario_spread and dsl = "Num 2"]
  note d = exit_priority [where m = "scenario_exit_metrics\<lparr>current_underlying_price := 571\<rparr>"
      and tpp = "1 / 2" and spread = scenario_spread and dsl = "Num 2"]
  note e = exit_priority [where m = priority_exit_metrics and spread = "two_trade_spread 60"
      and lib = sample_scipy and bt = priority_backtester and earlier = priority_entry
      and ts = 120 and current_data = priority_exit_ticks and later = "[]"]
  have first: "check_exit_conditions scenario_spread scenario_exit_metrics (3 / 5)
      (Num (1 / 8)) = Some (TargetProfit, 65)"
    using a by (simp add: scenario_exit_metrics_def scenario_spread_def)
  have monitored: "monitor sample_scipy scenario_backtester scenario_spread (3 / 5)
        (Num (1 / 8)) [(3600, scenario_exit_ticks)]
     = Inr (Some \<lparr>status = TargetProfit, theoretical_pnl = 65,
                   short_put_symbol = ''SPY250616P00570000'',
                   long_put_symbol = ''SPY250616P00567000'',
                   entry_time = 0, exit_time = 3600, result_credit_received = 6 / 5,
                   result_spread_width = 3, iteration = None\<rparr>)"
    using a scenario_metrics
    by (simp add: scenario_exit_metrics_def scenario_spread_def scenario_backtester_def
        fge_def make_result_def)
  have second: "check_exit_conditions scenario_spread scenario_exit_metrics (1 / 2)
      (Num (1 / 8)) = Some (DeltaStopLoss, 65)"
    using b by (simp add: scenario_exit_metrics_def scenario_spread_def fge_def)
  have third: "check_exit_conditions scenario_spread scenario_exit_metrics (1 / 2) (Num 2)
      = Some (AssignmentRisk, 20)"
    using c by (simp add: scenario_exit_metrics_def scenario_spread_def fge_def)
  have fourth: "check_exit_conditions scenario_spread
       (scenario_exit_metrics\<lparr>current_underlying_price := 571\<rparr>) (1 / 2) (Num 2) = None"
    using d by (simp add: scenario_exit_metrics_def scenario_spread_def fge_def)
  have executed: "\<exists>r. execute_single_trade sample_scipy priority_backtester
             (priority_entry @ (120, priority_exit_ticks) # []) = Inr (Some r)
          \<and> status r = TargetProfit \<and> status r \<noteq> DeltaStopLoss \<and> exit_time r = 120
          \<and> theoretical_pnl r = 100"
    using e priority_spread priority_metrics priority_not_entered
    by (simp add: priority_backtester_def priority_thresholds priority_exit_metrics_def
        fge_def)
  from first monitored second third fourth executed show ?thesis
    by (intro conjI)
qed

section \<open>Pricing engine\<close>

text \<open>The closure raises exactly when the strike is \<open>0.0\<close>, whatever \<open>sigma\<close>
  is; so does \<open>brentq\<close> on it, and the handler of \<open>ValueError\<close> does not catch
  it. With any other strike no exception leaves the pricing engine.\<close>

lemma option_price_diff_raises:
  "(option_price_diff lib price S K T r kind sigma = Inl e) = (K = 0 \<and> e = ZeroDivisionError)"
  by (auto simp: option_price_diff_def py_div_def Let_def)

lemma option_price_diff_value:
  "K \<noteq> 0 \<Longrightarrow> \<exists>v. option_price_diff lib price S K T r kind sigma = Inr v"
  by (simp add: option_price_diff_def py_div_def Let_def)

lemma brentq_cases:
  assumes "f a = Inr lo" and "f b = Inr hi"
  shows "brentq lib f a b = (if 0 < lo * hi then Inl ValueError else Inr (brentq_root lib f a b))"
  using assms by (simp add: brentq_def)

lemma implied_volatility_bracket:
  assumes "\<not> price \<le> intrinsic_value S K kind + 1 / 1000000"
    and "option_price_diff lib price S K T r kind (1 / 1000000) = Inr lo"
    and "option_price_diff lib price S K T r kind 5 = Inr hi"
  shows "calculate_implied_volatility lib price S K T r kind =
     (if 0 < lo * hi then Inr None
      else Inr (Some (brentq_root lib (option_price_diff lib price S K T r kind)
                        (1 / 1000000) 5)))"
  using assms
  by (simp add: calculate_implied_volatility_def sigma_lower_def sigma_upper_def brentq_cases)

lemma implied_volatility_no_error:
  assumes "K \<noteq> 0"
  shows "calculate_implied_volatility lib price S K T r kind \<noteq> Inl e"
proof (cases "price \<le> intrinsic_value S K kind + 1 / 1000000")
  case True
  then show ?thesis by (simp add: calculate_implied_volatility_def)
next
  case False
  obtain lo hi where "option_price_diff lib price S K T r kind (1 / 1000000) = Inr lo"
      "option_price_diff lib price S K T r kind 5 = Inr hi"
    using option_price_diff_value [OF assms] by meson
  with False show ?thesis
    by (simp add: implied_volatility_bracket)
qed

lemma implied_volatility_zero_strike:
  assumes "\<not> price \<le> intrinsic_value S 0 kind + 1 / 1000000"
  shows "calculate_implied_volatility lib price S 0 T r kind = Inl ZeroDivisionError"
  using assms
  by (simp add: calculate_implied_volatility_def brentq_def option_price_diff_def py_div_def)

lemma calculate_delta_no_error:
  assumes "strike \<noteq> 0"
  shows "calculate_delta lib price strike expiry_timestamp underlying rate kind
           current_timestamp \<noteq> Inl e"
  using assms implied_volatility_no_error [OF assms]
  by (auto simp: calculate_delta_def Let_def py_div_def split: sum.splits option.splits)

text \<open>The model price of a put is at most its strike, for every distribution function:
  a higher quote has no implied volatility.\<close>

lemma put_price_below_strike:
  assumes "\<forall>x. 0 \<le> norm_cdf lib x \<and> norm_cdf lib x \<le> 1"
    and "0 \<le> S" and "0 < K" and "0 \<le> r * T"
  shows "\<exists>v. option_price_diff lib price S K T r Put sigma = Inr v \<and> v \<le> K - price"
proof -
  let ?d1 = "(ln (S / K) + (r + 0.5 * sigma ^ 2) * T) / (sigma * sqrt T)"
  let ?d2 = "?d1 - sigma * sqrt T"
  have e: "exp (- r * T) \<le> 1" using assms(4) by simp
  have c1: "0 \<le> norm_cdf lib (- ?d2)" "norm_cdf lib (- ?d2) \<le> 1"
    and c2: "0 \<le> norm_cdf lib (- ?d1)"
    using assms(1) by simp_all
  have "exp (- r * T) * norm_cdf lib (- ?d2) \<le> 1 * 1"
    using e c1 by (intro mult_mono) simp_all
  then have "K * (exp (- r * T) * norm_cdf lib (- ?d2)) \<le> K * 1"
    using assms(3) by (intro mult_left_mono) simp_all
  moreover have "0 \<le> S * norm_cdf lib (- ?d1)"
    using assms(2) c2 by simp
  ultimately have "K * exp (- r * T) * norm_cdf lib (- ?d2) - S * norm_cdf lib (- ?d1) - price
      \<le> K - price"
    by (simp add: mult.assoc)
  moreover have "option_price_diff lib price S K T r Put sigma
      = Inr (K * exp (- r * T) * norm_cdf lib (- ?d2) - S * norm_cdf lib (- ?d1) - price)"
    using assms(3) by (simp add: option_price_diff_def py_div_def Let_def)
  ultimately show ?thesis by blast
qed

lemma price_above_strike_unavailable:
  assumes "\<forall>x. 0 \<le> norm_cdf lib x \<and> norm_cdf lib x \<le> 1"
    and "0 \<le> S" and "0 < K" and "0 \<le> r * T" and "K + 1 / 1000000 < price"
  shows "calculate_implied_volatility lib price S K T r Put = Inr None"
proof -
  obtain lo where lo: "option_price_diff lib price S K T r Put (1 / 1000000) = Inr lo"
      "lo \<le> K - price"
    using put_price_below_strike [OF assms(1-4)] by blast
  obtain hi where hi: "option_price_diff lib price S K T r Put 5 = Inr hi" "hi \<le> K - price"
    using put_price_below_strike [OF assms(1-4)] by blast
  have "lo < 0" "hi < 0" using lo(2) hi(2) assms(5) by simp_all
  then have pos: "0 < lo * hi" by (rule mult_neg_neg)
  have "\<not> price \<le> intrinsic_value S K Put + 1 / 1000000"
    using assms(2,3,5) by (simp add: intrinsic_value_def max_def)
  then show ?thesis
    using lo(1) hi(1) pos by (simp add: implied_volatility_bracket)
qed

lemma sample_cdf_range: "\<forall>x. 0 \<le> norm_cdf sample_scipy x \<and> norm_cdf sample_scipy x \<le> 1"
  by (simp add: sample_scipy_def)

lemma failed_delta:
  "calculate_delta sample_scipy 600 570 3600 571 (1 / 100) Put 1800 = Inr None"
proof -
  have "calculate_implied_volatility sample_scipy 600 571 570 (time_to_expiry 3600 1800)
      (1 / 100) Put = Inr None"
    by (rule price_above_strike_unavailable [OF sample_cdf_range])
       (simp_all add: time_to_expiry_def)
  moreover have "time_to_expiry 3600 1800 \<noteq> 1 / 1000000"
    by (simp add: time_to_expiry_def)
  ultimately show ?thesis
    by (simp add: calculate_delta_def Let_def)
qed

lemma ln_ratio:
  "ln (50 / 51 :: real) < - (1 / 100)" "- 1 < ln (50 / 51 :: real)"
proof -
  have "ln (50 / 51 :: real) \<le> 50 / 51 - 1"
    by (rule ln_le_minus_one) simp
  then show "ln (50 / 51 :: real) < - (1 / 100)" by simp
  have "ln (51 / 50 :: real) \<le> 51 / 50 - 1"
    by (rule ln_le_minus_one) simp
  moreover have "ln (50 / 51 :: real) = - ln (51 / 50 :: real)"
    using ln_div [of 50 "51 :: real"] ln_div [of 51 "50 :: real"] by simp
  ultimately show "- 1 < ln (50 / 51 :: real)" by simp
qed

lemma sample_low:
  "option_price_diff sample_scipy 5 100 102 1 0 Put (1 / 1000000) = Inr (- 3)"
  using ln_ratio
  by (simp add: option_price_diff_def py_div_def sample_scipy_def Let_def power2_eq_square)

lemma sample_high:
  "option_price_diff sample_scipy 5 100 102 1 0 Put 5 = Inr 97"
  using ln_ratio
  by (simp add: option_price_diff_def py_div_def sample_scipy_def Let_def power2_eq_square)

lemma sample_price_diff:
  "0 < sigma \<Longrightarrow>
   option_price_diff sample_scipy price 100 100 1 0 Put sigma = Inr (100 - price)"
  by (simp add: option_price_diff_def py_div_def sample_scipy_def Let_def power2_eq_square)

text \<open>
  C5. Time to expiry is the time left in years, floored at one millionth of a year: it
  is the time left when that is more than the floor and the floor otherwise, so it is
  never zero. At the floor the delta is the intrinsic indicator, whatever the price,
  the rate and the numerical library: no implied volatility is computed. Above the
  floor the delta is computed from the implied volatility at the time left.
\<close>

theorem expiry_floor_delta:
  "time_to_expiry expiry_timestamp current_timestamp
     = max (real_of_int (expiry_timestamp - current_timestamp) / (365 * 24 * 60 * 60))
           (1 / 1000000)
   \<and> 1 / 1000000 \<le> time_to_expiry expiry_timestamp current_timestamp
   \<and> 0 < time_to_expiry expiry_timestamp current_timestamp
   \<and> (real_of_int (expiry_timestamp - current_timestamp) / (365 * 24 * 60 * 60) \<le> 1 / 1000000
        \<longrightarrow> time_to_expiry expiry_timestamp current_timestamp = 1 / 1000000)
   \<and> (1 / 1000000 < real_of_int (expiry_timestamp - current_timestamp) / (365 * 24 * 60 * 60)
        \<longrightarrow> time_to_expiry expiry_timestamp current_timestamp
              = real_of_int (expiry_timestamp - current_timestamp) / (365 * 24 * 60 * 60))
   \<and> (time_to_expiry expiry_timestamp current_timestamp = 1 / 1000000 \<longrightarrow>
        calculate_delta lib price strike expiry_timestamp underlying rate Put current_timestamp
          = Inr (Some (Num (if underlying < strike then - 1 else 0)))
        \<and> calculate_delta lib price strike expiry_timestamp underlying rate Call current_timestamp
          = Inr (Some (Num (if underlying > strike then 1 else 0))))
   \<and> (1 / 1000000 < real_of_int (expiry_timestamp - current_timestamp) / (365 * 24 * 60 * 60)
        \<longrightarrow>
        calculate_delta lib price strike expiry_timestamp underlying rate kind current_timestamp
          = (case calculate_implied_volatility lib price underlying strike
                    (real_of_int (expiry_timestamp - current_timestamp) / (365 * 24 * 60 * 60))
                    rate kind of
               Inl raised \<Rightarrow> Inl raised
             | Inr None \<Rightarrow> Inr None
             | Inr (Some implied_volatility) \<Rightarrow>
                 (case py_div underlying strike of
                    Inl raised \<Rightarrow> Inl raised
                  | Inr ratio \<Rightarrow>
                      Inr (Some
                        (if kind = Call
                         then cdf lib
                           (fdiv (ln ratio + (rate + 0.5 * implied_volatility ^ 2)
                                    * (real_of_int (expiry_timestamp - current_timestamp)
                                        / (365 * 24 * 60 * 60)))
                                 (implied_volatility
                                    * sqrt (real_of_int (expiry_timestamp - current_timestamp)
                                              / (365 * 24 * 60 * 60))))
                         else fneg (cdf lib (fneg
                           (fdiv (ln ratio + (rate + 0.5 * implied_volatility ^ 2)
                                    * (real_of_int (expiry_timestamp - current_timestamp)
                                        / (365 * 24 * 60 * 60)))
                                 (implied_volatility
                                    * sqrt (real_of_int (expiry_timestamp - current_timestamp)
                                              / (365 * 24 * 60 * 60)))))))))))"
proof -
  let ?raw = "real_of_int (expiry_timestamp - current_timestamp) / (365 * 24 * 60 * 60)"
  have floor: "time_to_expiry expiry_timestamp current_timestamp = max ?raw (1 / 1000000)"
    by (simp add: time_to_expiry_def)
  have above: "time_to_expiry expiry_timestamp current_timestamp = ?raw"
      "time_to_expiry expiry_timestamp current_timestamp \<noteq> 1 / 1000000"
    if "1 / 1000000 < ?raw"
    using that by (simp_all add: floor max_def)
  have at_floor: "time_to_expiry expiry_timestamp current_timestamp = 1 / 1000000 \<longrightarrow>
        calculate_delta lib price strike expiry_timestamp underlying rate Put current_timestamp
          = Inr (Some (Num (if underlying < strike then - 1 else 0)))
        \<and> calculate_delta lib price strike expiry_timestamp underlying rate Call current_timestamp
          = Inr (Some (Num (if underlying > strike then 1 else 0)))"
    by (simp add: calculate_delta_def)
  have beyond: "1 / 1000000 < ?raw \<longrightarrow>
        calculate_delta lib price strike expiry_timestamp underlying rate kind current_timestamp
          = (case calculate_implied_volatility lib price underlying strike ?raw rate kind of
               Inl raised \<Rightarrow> Inl raised
             | Inr None \<Rightarrow> Inr None
             | Inr (Some implied_volatility) \<Rightarrow>
                 (case py_div underlying strike of
                    Inl raised \<Rightarrow> Inl raised
                  | Inr ratio \<Rightarrow>
                      Inr (Some
                        (if kind = Call
                         then cdf lib
                           (fdiv (ln ratio + (rate + 0.5 * implied_volatility ^ 2) * ?raw)
                                 (implied_volatility * sqrt ?raw))
                         else fneg (cdf lib (fneg
                           (fdiv (ln ratio + (rate + 0.5 * implied_volatility ^ 2) * ?raw)
                                 (implied_volatility * sqrt ?raw))))))))"
  proof
    assume "1 / 1000000 < ?raw"
    note t = above [OF this]
    show "calculate_delta lib price strike expiry_timestamp underlying rate kind
            current_timestamp
          = (case calculate_implied_volatility lib price underlying strike ?raw rate kind of
               Inl raised \<Rightarrow> Inl raised
             | Inr None \<Rightarrow> Inr None
             | Inr (Some implied_volatility) \<Rightarrow>
                 (case py_div underlying strike of
                    Inl raised \<Rightarrow> Inl raised
                  | Inr ratio \<Rightarrow>
                      Inr (Some
                        (if kind = Call
                         then cdf lib
                           (fdiv (ln ratio + (rate + 0.5 * implied_volatility ^ 2) * ?raw)
                                 (implied_volatility * sqrt ?raw))
                         else fneg (cdf lib (fneg
                           (fdiv (ln ratio + (rate + 0.5 * implied_volatility ^ 2) * ?raw)
                                 (implied_volatility * sqrt ?raw))))))))"
      unfolding calculate_delta_def Let_def t(1) using t(2) [unfolded t(1)]
      by (simp split: sum.splits option.splits)
  qed
  have bounds: "1 / 1000000 \<le> time_to_expiry expiry_timestamp current_timestamp"
      "0 < time_to_expiry expiry_timestamp current_timestamp"
      "?raw \<le> 1 / 1000000 \<longrightarrow>
         time_to_expiry expiry_timestamp current_timestamp = 1 / 1000000"
      "1 / 1000000 < ?raw \<longrightarrow> time_to_expiry expiry_timestamp current_timestamp = ?raw"
    by (simp_all add: floor max_def)
  from floor bounds at_floor beyond show ?thesis
    by (intro conjI)
qed

theorem expiry_floor_delta_witness:
  "time_to_expiry 3600 3600 = 1 / 1000000
   \<and> time_to_expiry 3600 3630 = 1 / 1000000
   \<and> time_to_expiry 86400 0 = 1 / 365
   \<and> calculate_delta sample_scipy (21 / 20) 570 3600 569 (1 / 100) Put 3600
     = Inr (Some (Num (- 1)))
   \<and> calculate_delta sample_scipy (21 / 20) 570 3600 569 (1 / 100) Call 3600
     = Inr (Some (Num 0))
   \<and> calculate_delta sample_scipy (1 / 20) 570 3600 571 (1 / 100) Put 3630
     = Inr (Some (Num 0))
   \<and> calculate_delta sample_scipy (21 / 20) 570 3600 571 (1 / 100) Call 3630
     = Inr (Some (Num 1))
   \<and> calculate_delta sample_scipy 600 570 3600 571 (1 / 100) Put 1800 = Inr None"
proof -
  note a = expiry_floor_delta [where expiry_timestamp = 3600 and current_timestamp = 3600
      and lib = sample_scipy and price = "21 / 20" and strike = 570 and underlying = 569
      and rate = "1 / 100"]
  note b = expiry_floor_delta [where expiry_timestamp = 3600 and current_timestamp = 3630
      and lib = sample_scipy and price = "1 / 20" and strike = 570 and underlying = 571
      and rate = "1 / 100"]
  note c = expiry_floor_delta [where expiry_timestamp = 3600 and current_timestamp = 3630
      and lib = sample_scipy and price = "21 / 20" and strike = 570 and underlying = 571
      and rate = "1 / 100"]
  note d = expiry_floor_delta [where expiry_timestamp = 86400 and current_timestamp = 0]
  note e = expiry_floor_delta [where expiry_timestamp = 3600 and current_timestamp = 1800
      and lib = sample_scipy and price = 600 and strike = 570 and underlying = 571
      and rate = "1 / 100" and kind = Put]
  have unavailable: "calculate_implied_volatility sample_scipy 600 571 570
      (real_of_int (3600 - 1800) / (365 * 24 * 60 * 60)) (1 / 100) Put = Inr None"
    by (rule price_above_strike_unavailable [OF sample_cdf_range]) simp_all
  have at_expiry: "time_to_expiry 3600 3600 = 1 / 1000000"
    using a by simp
  have after_expiry: "time_to_expiry 3600 3630 = 1 / 1000000"
    using b by simp
  have day: "time_to_expiry 86400 0 = 1 / 365"
    using d by simp
  have put_in: "calculate_delta sample_scipy (21 / 20) 570 3600 569 (1 / 100) Put 3600
     = Inr (Some (Num (- 1)))"
    and call_out: "calculate_delta sample_scipy (21 / 20) 570 3600 569 (1 / 100) Call 3600
     = Inr (Some (Num 0))"
    using a at_expiry by simp_all
  have put_out: "calculate_delta sample_scipy (1 / 20) 570 3600 571 (1 / 100) Put 3630
     = Inr (Some (Num 0))"
    using b after_expiry by simp
  have call_in: "calculate_delta sample_scipy (21 / 20) 570 3600 571 (1 / 100) Call 3630
     = Inr (Some (Num 1))"
    using c after_expiry by simp
  have before_expiry: "calculate_delta sample_scipy 600 570 3600 571 (1 / 100) Put 1800
      = Inr None"
    using e unavailable by simp
  from at_expiry after_expiry day put_in call_out put_out call_in before_expiry
  show ?thesis by (intro conjI)
qed

text \<open>
  C4. A price not above the intrinsic value plus \<open>1e-6\<close> gives volatility \<open>0.0\<close>,
  for every input and every numerical library: no root is sought. For any other price,
  with positive underlying, strike and time, the result is that of \<open>brentq\<close> over
  \<open>[1e-6, 5]\<close> on the Black-Scholes price of the option at volatility \<open>sigma\<close>
  minus the observed price: \<open>None\<close> when that function has the same sign at both
  ends, the root of the iteration otherwise; and no exception leaves the function.
\<close>

theorem implied_volatility_cases:
  "(price \<le> max 0 (S - K) + 1 / 1000000 \<longrightarrow>
      calculate_implied_volatility lib price S K T r Call = Inr (Some 0))
   \<and> (price \<le> max 0 (K - S) + 1 / 1000000 \<longrightarrow>
      calculate_implied_volatility lib price S K T r Put = Inr (Some 0))
   \<and> (0 < S \<and> 0 < K \<and> 0 < T \<and> 0 < sigma \<longrightarrow>
      option_price_diff lib price S K T r Call sigma
        = Inr (S * norm_cdf lib ((ln (S / K) + (r + sigma ^ 2 / 2) * T) / (sigma * sqrt T))
               - K * exp (- r * T)
                 * norm_cdf lib ((ln (S / K) + (r + sigma ^ 2 / 2) * T) / (sigma * sqrt T)
                                 - sigma * sqrt T)
               - price)
      \<and> option_price_diff lib price S K T r Put sigma
        = Inr (K * exp (- r * T)
                 * norm_cdf lib (- ((ln (S / K) + (r + sigma ^ 2 / 2) * T) / (sigma * sqrt T)
                                    - sigma * sqrt T))
               - S * norm_cdf lib (- ((ln (S / K) + (r + sigma ^ 2 / 2) * T) / (sigma * sqrt T)))
               - price))
   \<and> (0 < S \<and> 0 < K \<and> 0 < T
        \<and> \<not> price \<le> intrinsic_value S K kind + 1 / 1000000
        \<and> option_price_diff lib price S K T r kind (1 / 1000000) = Inr lo
        \<and> option_price_diff lib price S K T r kind 5 = Inr hi \<longrightarrow>
      calculate_implied_volatility lib price S K T r kind
        = (if 0 < lo * hi then Inr None
           else Inr (Some (brentq_root lib (option_price_diff lib price S K T r kind)
                             (1 / 1000000) 5))))
   \<and> (0 < S \<and> 0 < K \<and> 0 < T \<longrightarrow>
        (\<exists>lo hi. option_price_diff lib price S K T r kind (1 / 1000000) = Inr lo
                \<and> option_price_diff lib price S K T r kind 5 = Inr hi)
        \<and> (\<forall>raised. calculate_implied_volatility lib price S K T r kind \<noteq> Inl raised))"
proof -
  have zero: "(price \<le> max 0 (S - K) + 1 / 1000000 \<longrightarrow>
      calculate_implied_volatility lib price S K T r Call = Inr (Some 0))
   \<and> (price \<le> max 0 (K - S) + 1 / 1000000 \<longrightarrow>
      calculate_implied_volatility lib price S K T r Put = Inr (Some 0))"
    by (simp add: calculate_implied_volatility_def intrinsic_value_def)
  have formula: "0 < S \<and> 0 < K \<and> 0 < T \<and> 0 < sigma \<longrightarrow>
      option_price_diff lib price S K T r Call sigma
        = Inr (S * norm_cdf lib ((ln (S / K) + (r + sigma ^ 2 / 2) * T) / (sigma * sqrt T))
               - K * exp (- r * T)
                 * norm_cdf lib ((ln (S / K) + (r + sigma ^ 2 / 2) * T) / (sigma * sqrt T)
                                 - sigma * sqrt T)
               - price)
      \<and> option_price_diff lib price S K T r Put sigma
        = Inr (K * exp (- r * T)
                 * norm_cdf lib (- ((ln (S / K) + (r + sigma ^ 2 / 2) * T) / (sigma * sqrt T)
                                    - sigma * sqrt T))
               - S * norm_cdf lib (- ((ln (S / K) + (r + sigma ^ 2 / 2) * T) / (sigma * sqrt T)))
               - price)"
    by (simp add: option_price_diff_def py_div_def Let_def)
  have bracket: "0 < S \<and> 0 < K \<and> 0 < T
        \<and> \<not> price \<le> intrinsic_value S K kind + 1 / 1000000
        \<and> option_price_diff lib price S K T r kind (1 / 1000000) = Inr lo
        \<and> option_price_diff lib price S K T r kind 5 = Inr hi \<longrightarrow>
      calculate_implied_volatility lib price S K T r kind
        = (if 0 < lo * hi then Inr None
           else Inr (Some (brentq_root lib (option_price_diff lib price S K T r kind)
                             (1 / 1000000) 5)))"
    by (intro impI; elim conjE) (rule implied_volatility_bracket)
  have total: "0 < S \<and> 0 < K \<and> 0 < T \<longrightarrow>
        (\<exists>lo hi. option_price_diff lib price S K T r kind (1 / 1000000) = Inr lo
                \<and> option_price_diff lib price S K T r kind 5 = Inr hi)
        \<and> (\<forall>raised. calculate_implied_volatility lib price S K T r kind \<noteq> Inl raised)"
  proof (intro impI; elim conjE)
    assume "0 < K"
    then have k: "K \<noteq> 0" by simp
    from option_price_diff_value [OF k] obtain lo hi where
      "option_price_diff lib price S K T r kind (1 / 1000000) = Inr lo"
      "option_price_diff lib price S K T r kind 5 = Inr hi"
      by meson
    then show "(\<exists>lo hi. option_price_diff lib price S K T r kind (1 / 1000000) = Inr lo
                \<and> option_price_diff lib price S K T r kind 5 = Inr hi)
        \<and> (\<forall>raised. calculate_implied_volatility lib price S K T r kind \<noteq> Inl raised)"
      using implied_volatility_no_error [OF k] by blast
  qed
  from zero formula bracket total show ?thesis
    by (intro conjI) (elim conjE, assumption)+
qed

theorem implied_volatility_cases_witness:
  "calculate_implied_volatility sample_scipy 0 100 100 1 0 Call = Inr (Some 0)
   \<and> calculate_implied_volatility sample_scipy 2 100 102 1 0 Put = Inr (Some 0)
   \<and> calculate_implied_volatility sample_scipy 200 100 100 1 0 Put = Inr None
   \<and> (\<forall>raised. calculate_implied_volatility sample_scipy 200 100 100 1 0 Put
                  \<noteq> Inl raised)
   \<and> calculate_implied_volatility sample_scipy 5 100 102 1 0 Put
     = Inr (Some (brentq_root sample_scipy (option_price_diff sample_scipy 5 100 102 1 0 Put)
                    (1 / 1000000) 5))"
proof -
  note a = implied_volatility_cases [where price = 0 and S = 100 and K = 100 and T = 1
      and r = 0 and lib = sample_scipy]
  note b = implied_volatility_cases [where price = 2 and S = 100 and K = 102 and T = 1
      and r = 0 and lib = sample_scipy]
  note c = implied_volatility_cases [where price = 200 and S = 100 and K = 100 and T = 1
      and r = 0 and lib = sample_scipy and kind = Put and lo = "- 100" and hi = "- 100"]
  note d = implied_volatility_cases [where price = 5 and S = 100 and K = 102 and T = 1
      and r = 0 and lib = sample_scipy and kind = Put and lo = "- 3" and hi = 97]
  have call_zero: "calculate_implied_volatility sample_scipy 0 100 100 1 0 Call
      = Inr (Some 0)"
    using a by simp
  have put_zero: "calculate_implied_volatility sample_scipy 2 100 102 1 0 Put = Inr (Some 0)"
    using b by simp
  have ends: "option_price_diff sample_scipy 200 100 100 1 0 Put (1 / 1000000) = Inr (- 100)"
    "option_price_diff sample_scipy 200 100 100 1 0 Put 5 = Inr (- 100)"
    by (simp_all add: sample_price_diff)
  have unavailable: "calculate_implied_volatility sample_scipy 200 100 100 1 0 Put = Inr None"
    using c ends by (simp add: intrinsic_value_def)
  have root: "calculate_implied_volatility sample_scipy 5 100 102 1 0 Put
     = Inr (Some (brentq_root sample_scipy (option_price_diff sample_scipy 5 100 102 1 0 Put)
                    (1 / 1000000) 5))"
    using d sample_low sample_high by (simp add: intrinsic_value_def)
  have total: "\<forall>raised. calculate_implied_volatility sample_scipy 200 100 100 1 0 Put
      \<noteq> Inl raised"
    using c by simp
  from call_zero put_zero unavailable total root show ?thesis
    by (intro conjI)
qed

text \<open>
  Outside the domain of the Black-Scholes formula, at a strike of \<open>0.0\<close>, a price
  above the intrinsic value makes \<open>calculate_implied_volatility\<close> raise
  \<open>ZeroDivisionError\<close> at the first evaluation of the closure.
\<close>

lemma zero_strike_raises:
  "calculate_implied_volatility sample_scipy 1 100 0 1 0 Put = Inl ZeroDivisionError"
  by (rule implied_volatility_zero_strike) (simp add: intrinsic_value_def)

section \<open>Locating prices at a monitored timestamp\<close>

lemma locate_prices_append:
  "locate_prices spread st (xs @ ys) = locate_prices spread (locate_prices spread st xs) ys"
  by (induction xs arbitrary: st) auto

lemma locate_no_short:
  "\<forall>t \<in> set cd. tick_option_symbol t \<noteq> option_symbol (short_leg spread) \<Longrightarrow>
   fst (locate_prices spread st cd) = fst st"
  by (induction cd arbitrary: st) (auto simp: locate_tick_def split: prod.splits)

lemma locate_no_long:
  "\<forall>t \<in> set cd. tick_option_symbol t = option_symbol (short_leg spread)
                 \<or> tick_option_symbol t \<noteq> option_symbol (long_leg spread) \<Longrightarrow>
   fst (snd (locate_prices spread st cd)) = fst (snd st)"
  by (induction cd arbitrary: st) (auto simp: locate_tick_def split: prod.splits)

lemma locate_underlying_kept:
  "snd (snd st) = Some u \<Longrightarrow>
   \<forall>t \<in> set cd. tick_option_symbol t \<noteq> option_symbol (short_leg spread) \<Longrightarrow>
   snd (snd (locate_prices spread st cd)) = Some u"
  by (induction cd arbitrary: st) (auto simp: locate_tick_def split: prod.splits)

lemma locate_underlying_none:
  "snd (snd st) = None \<Longrightarrow>
   \<forall>t \<in> set cd. (tick_option_symbol t = option_symbol (short_leg spread)
                   \<or> tick_option_symbol t = option_symbol (long_leg spread))
                  \<longrightarrow> tick_underlying_close t = None \<Longrightarrow>
   snd (snd (locate_prices spread st cd)) = None"
  by (induction cd arbitrary: st) (auto simp: locate_tick_def split: prod.splits)

lemma locate_underlying_untouched:
  "\<forall>t \<in> set cd. tick_option_symbol t \<noteq> option_symbol (short_leg spread)
                 \<and> tick_option_symbol t \<noteq> option_symbol (long_leg spread) \<Longrightarrow>
   locate_prices spread st cd = st"
  by (induction cd arbitrary: st) (auto simp: locate_tick_def split: prod.splits)

lemma locate_short_price:
  assumes "current_data = before @ s # after"
    and "tick_option_symbol s = option_symbol (short_leg spread)"
    and "\<forall>t \<in> set after. tick_option_symbol t \<noteq> option_symbol (short_leg spread)"
  shows "fst (locate_prices spread st current_data) = Some (tick_midpoint s)"
proof -
  obtain a b c where st': "locate_prices spread st before = (a, b, c)"
    by (cases "locate_prices spread st before") auto
  have "fst (locate_prices spread st current_data)
          = fst (locate_prices spread (locate_tick spread (a, b, c) s) after)"
    using assms(1) st' by (simp add: locate_prices_append)
  also have "\<dots> = fst (locate_tick spread (a, b, c) s)"
    using assms(3) by (rule locate_no_short)
  also have "\<dots> = Some (tick_midpoint s)"
    using assms(2) by (simp add: locate_tick_def)
  finally show ?thesis .
qed

lemma locate_long_price:
  assumes "current_data = before @ l # after"
    and "tick_option_symbol l = option_symbol (long_leg spread)"
    and "option_symbol (long_leg spread) \<noteq> option_symbol (short_leg spread)"
    and "\<forall>t \<in> set after. tick_option_symbol t \<noteq> option_symbol (long_leg spread)"
  shows "fst (snd (locate_prices spread st current_data)) = Some (tick_midpoint l)"
proof -
  obtain a b c where st': "locate_prices spread st before = (a, b, c)"
    by (cases "locate_prices spread st before") auto
  have "fst (snd (locate_prices spread st current_data))
          = fst (snd (locate_prices spread (locate_tick spread (a, b, c) l) after))"
    using assms(1) st' by (simp add: locate_prices_append)
  also have "\<dots> = fst (snd (locate_tick spread (a, b, c) l))"
    using assms(4) by (intro locate_no_long) auto
  also have "\<dots> = Some (tick_midpoint l)"
    using assms(2,3) by (simp add: locate_tick_def)
  finally show ?thesis .
qed

lemma locate_underlying_short:
  assumes "current_data = before @ s # after"
    and "tick_option_symbol s = option_symbol (short_leg spread)"
    and "\<forall>t \<in> set after. tick_option_symbol t \<noteq> option_symbol (short_leg spread)"
    and "tick_underlying_close s = Some u"
  shows "snd (snd (locate_prices spread st current_data)) = Some u"
proof -
  obtain a b c where st': "locate_prices spread st before = (a, b, c)"
    by (cases "locate_prices spread st before") auto
  have "snd (snd (locate_tick spread (a, b, c) s)) = Some u"
    using assms(2,4) by (simp add: locate_tick_def)
  then have "snd (snd (locate_prices spread (locate_tick spread (a, b, c) s) after)) = Some u"
    using assms(3) by (rule locate_underlying_kept)
  then show ?thesis
    using assms(1) st' by (simp add: locate_prices_append)
qed

lemma locate_underlying_fallback:
  assumes "current_data = before @ s # between @ l # after"
    and "tick_option_symbol s = option_symbol (short_leg spread)"
    and "tick_option_symbol l = option_symbol (long_leg spread)"
    and "option_symbol (long_leg spread) \<noteq> option_symbol (short_leg spread)"
    and "\<forall>t \<in> set between. tick_option_symbol t \<noteq> option_symbol (short_leg spread)
                           \<and> tick_option_symbol t \<noteq> option_symbol (long_leg spread)"
    and "\<forall>t \<in> set after. tick_option_symbol t \<noteq> option_symbol (short_leg spread)"
    and "tick_underlying_close s = None"
    and "tick_underlying_close l = Some u"
  shows "snd (snd (locate_prices spread st current_data)) = Some u"
proof -
  obtain a b c where st': "locate_prices spread st before = (a, b, c)"
    by (cases "locate_prices spread st before") auto
  let ?s1 = "locate_tick spread (a, b, c) s"
  have s1: "?s1 = (Some (tick_midpoint s), b, None)"
    using assms(2,7) by (simp add: locate_tick_def)
  have s2: "locate_prices spread ?s1 between = ?s1"
    using assms(5) by (rule locate_underlying_untouched)
  have s3: "snd (snd (locate_tick spread ?s1 l)) = Some u"
    unfolding s1 using assms(3,4,8) by (simp add: locate_tick_def)
  have "snd (snd (locate_prices spread (locate_tick spread ?s1 l) after)) = Some u"
    using s3 assms(6) by (rule locate_underlying_kept)
  then show ?thesis
    using assms(1) st' s2 by (simp add: locate_prices_append)
qed

lemma metrics_skip:
  assumes "locate_prices spread (None, None, None) current_data = (sp, lp, u)"
    and "\<not> (truthy sp \<and> truthy lp \<and> truthy u)"
  shows "calculate_current_spread_metrics lib spread current_data rate = Inr None"
  using assms by (simp add: calculate_current_spread_metrics_def)

lemma located_nonempty:
  "locate_prices spread (None, None, None) current_data = (Some a, lp, u) \<Longrightarrow>
   current_data \<noteq> []"
  by auto

lemma metrics_value:
  assumes "locate_prices spread (None, None, None) (t0 # ticks) = (Some a, Some b, Some c)"
    and "a \<noteq> 0" and "b \<noteq> 0" and "c \<noteq> 0"
  shows "calculate_current_spread_metrics lib spread (t0 # ticks) rate =
     (case calculate_delta lib a (strike_price (short_leg spread))
              (expiration_date (short_leg spread)) c rate Put (tick_timestamp t0) of
        Inl raised \<Rightarrow> Inl raised
      | Inr short_delta \<Rightarrow>
          (case calculate_delta lib b (strike_price (long_leg spread))
                  (expiration_date (long_leg spread)) c rate Put (tick_timestamp t0) of
             Inl raised \<Rightarrow> Inl raised
           | Inr long_delta \<Rightarrow>
               (case (short_delta, long_delta) of
                  (Some x, Some y) \<Rightarrow>
                    Inr (Some \<lparr>current_spread_price = a - b, current_short_price = a,
                                 current_long_price = b, current_underlying_price = c,
                                 current_short_delta = x, current_long_delta = y,
                                 current_total_delta = fsub (fabs x) (fabs y),
                                 metrics_timestamp = tick_timestamp t0\<rparr>)
                | _ \<Rightarrow> Inr None)))"
  using assms by (simp add: calculate_current_spread_metrics_def truthy_def)

lemma metrics_no_error:
  assumes "strike_price (short_leg spread) \<noteq> 0" and "strike_price (long_leg spread) \<noteq> 0"
  shows "calculate_current_spread_metrics lib spread current_data rate \<noteq> Inl raised"
proof -
  obtain sp lp u where loc: "locate_prices spread (None, None, None) current_data = (sp, lp, u)"
    by (cases "locate_prices spread (None, None, None) current_data") auto
  show ?thesis
  proof (cases "truthy sp \<and> truthy lp \<and> truthy u")
    case False
    with loc show ?thesis by (simp add: metrics_skip)
  next
    case True
    then obtain a b c where v: "sp = Some a" "lp = Some b" "u = Some c"
        "a \<noteq> 0" "b \<noteq> 0" "c \<noteq> 0"
      by (auto simp: truthy_def split: option.splits)
    with loc obtain t0 ticks where cd: "current_data = t0 # ticks"
      by (cases current_data) auto
    obtain short_delta where sd: "calculate_delta lib a (strike_price (short_leg spread))
        (expiration_date (short_leg spread)) c rate Put (tick_timestamp t0) = Inr short_delta"
      using calculate_delta_no_error [OF assms(1)] by (meson sum.exhaust)
    obtain long_delta where ld: "calculate_delta lib b (strike_price (long_leg spread))
        (expiration_date (long_leg spread)) c rate Put (tick_timestamp t0) = Inr long_delta"
      using calculate_delta_no_error [OF assms(2)] by (meson sum.exhaust)
    show ?thesis
      using metrics_value [of spread t0 ticks a b c lib rate] loc v cd sd ld
      by (simp split: option.splits)
  qed
qed

lemma monitor_skip:
  "calculate_current_spread_metrics lib spread current_data (bt_risk_free_rate bt) = Inr None
   \<Longrightarrow>
   monitor lib bt spread tpp dsl ((ts, current_data) # rest) = monitor lib bt spread tpp dsl rest"
  by simp

lemma monitor_step:
  assumes "entry_timestamp spread < ts"
    and "calculate_current_spread_metrics lib spread current_data (bt_risk_free_rate bt)
           = Inr (Some m)"
  shows "monitor lib bt spread tpp dsl ((ts, current_data) # rest) =
     (case check_exit_conditions spread m tpp dsl of
        None \<Rightarrow> monitor lib bt spread tpp dsl rest
      | Some (st, pnl) \<Rightarrow> Inr (Some (make_result spread st pnl ts)))"
  using assms by simp

lemma monitor_exit_time:
  "monitor lib bt spread tpp dsl data = Inr (Some r) \<Longrightarrow> exit_time r \<in> fst ` set data"
proof (induction data)
  case Nil
  then show ?case by simp
next
  case (Cons x data)
  obtain ts current_data where x: "x = (ts, current_data)" by (cases x)
  show ?case
  proof (cases "ts \<le> entry_timestamp spread")
    case True
    with Cons show ?thesis by (simp add: x)
  next
    case False
    show ?thesis
    proof (cases "calculate_current_spread_metrics lib spread current_data
                    (bt_risk_free_rate bt)")
      case (Inl raised)
      with False Cons.prems show ?thesis by (simp add: x)
    next
      case (Inr found)
      show ?thesis
      proof (cases found)
        case None
        with False Inr Cons show ?thesis by (simp add: x)
      next
        case (Some m)
        show ?thesis
        proof (cases "check_exit_conditions spread m tpp dsl")
          case None
          with False Inr Some Cons show ?thesis by (simp add: x)
        next
          case (Some exit)
          obtain st pnl where "exit = (st, pnl)" by (cases exit)
          with False Inr \<open>found = Some m\<close> Some Cons.prems
          have "r = make_result spread st pnl ts" by (simp add: x)
          then show ?thesis by (simp add: x make_result_fields)
        qed
      qed
    qed
  qed
qed

section \<open>Zero prices at a monitored timestamp\<close>

text \<open>
  C10. When the located short price, long price or underlying price of a timestamp is
  \<open>0.0\<close>, no metrics are computed, the monitor goes on with the next timestamp, and
  (the timestamps being distinct) no trade ends at this one. The located short price
  is \<open>0.0\<close> when the last tick of the group with the short leg's symbol has midpoint
  \<open>0.0\<close>; likewise for its underlying quote and for the long leg's midpoint.
\<close>

theorem zero_price_skips:
  "(locate_prices spread (None, None, None) current_data = (sp, lp, u)
      \<and> (sp = Some 0 \<or> lp = Some 0 \<or> u = Some 0) \<longrightarrow>
        calculate_current_spread_metrics lib spread current_data (bt_risk_free_rate bt) = Inr None
      \<and> monitor lib bt spread tpp dsl ((ts, current_data) # rest)
          = monitor lib bt spread tpp dsl rest
      \<and> (\<forall>r. ts \<notin> fst ` set rest
             \<and> monitor lib bt spread tpp dsl ((ts, current_data) # rest) = Inr (Some r)
           \<longrightarrow> exit_time r \<noteq> ts))
   \<and> (current_data = before @ s # after
      \<and> tick_option_symbol s = option_symbol (short_leg spread)
      \<and> (\<forall>t \<in> set after. tick_option_symbol t \<noteq> option_symbol (short_leg spread))
      \<and> tick_midpoint s = 0 \<longrightarrow>
        fst (locate_prices spread (None, None, None) current_data) = Some 0)
   \<and> (current_data = before @ s # after
      \<and> tick_option_symbol s = option_symbol (short_leg spread)
      \<and> (\<forall>t \<in> set after. tick_option_symbol t \<noteq> option_symbol (short_leg spread))
      \<and> tick_underlying_close s = Some 0 \<longrightarrow>
        snd (snd (locate_prices spread (None, None, None) current_data)) = Some 0)
   \<and> (current_data = before @ l # after
      \<and> tick_option_symbol l = option_symbol (long_leg spread)
      \<and> option_symbol (long_leg spread) \<noteq> option_symbol (short_leg spread)
      \<and> (\<forall>t \<in> set after. tick_option_symbol t \<noteq> option_symbol (long_leg spread))
      \<and> tick_midpoint l = 0 \<longrightarrow>
        fst (snd (locate_prices spread (None, None, None) current_data)) = Some 0)"
proof (intro conjI impI allI)
  assume a: "locate_prices spread (None, None, None) current_data = (sp, lp, u)
      \<and> (sp = Some 0 \<or> lp = Some 0 \<or> u = Some 0)"
  then have "\<not> (truthy sp \<and> truthy lp \<and> truthy u)"
    by (auto simp: truthy_def)
  with a show none: "calculate_current_spread_metrics lib spread current_data
      (bt_risk_free_rate bt) = Inr None"
    by (blast intro: metrics_skip)
  then show skip: "monitor lib bt spread tpp dsl ((ts, current_data) # rest)
      = monitor lib bt spread tpp dsl rest"
    by (rule monitor_skip)
  fix r
  assume "ts \<notin> fst ` set rest
      \<and> monitor lib bt spread tpp dsl ((ts, current_data) # rest) = Inr (Some r)"
  then have "ts \<notin> fst ` set rest" and "monitor lib bt spread tpp dsl rest = Inr (Some r)"
    using skip by simp_all
  then show "exit_time r \<noteq> ts"
    using monitor_exit_time by blast
next
  assume "current_data = before @ s # after
      \<and> tick_option_symbol s = option_symbol (short_leg spread)
      \<and> (\<forall>t \<in> set after. tick_option_symbol t \<noteq> option_symbol (short_leg spread))
      \<and> tick_midpoint s = 0"
  then show "fst (locate_prices spread (None, None, None) current_data) = Some 0"
    using locate_short_price [of current_data before s after spread "(None, None, None)"]
    by simp
next
  assume "current_data = before @ s # after
      \<and> tick_option_symbol s = option_symbol (short_leg spread)
      \<and> (\<forall>t \<in> set after. tick_option_symbol t \<noteq> option_symbol (short_leg spread))
      \<and> tick_underlying_close s = Some 0"
  then show "snd (snd (locate_prices spread (None, None, None) current_data)) = Some 0"
    using locate_underlying_short [of current_data before s after spread 0 "(None, None, None)"]
    by simp
next
  assume "current_data = before @ l # after
      \<and> tick_option_symbol l = option_symbol (long_leg spread)
      \<and> option_symbol (long_leg spread) \<noteq> option_symbol (short_leg spread)
      \<and> (\<forall>t \<in> set after. tick_option_symbol t \<noteq> option_symbol (long_leg spread))
      \<and> tick_midpoint l = 0"
  then show "fst (snd (locate_prices spread (None, None, None) current_data)) = Some 0"
    using locate_long_price [of current_data before l after spread "(None, None, None)"]
    by simp
qed

lemma zero_long_located:
  "locate_prices scenario_spread (None, None, None) zero_long_ticks
     = (Some (1 / 2), Some 0, Some 569)"
  by (simp add: zero_long_ticks_def scenario_spread_def quote_def locate_tick_def)

theorem zero_price_skips_witness:
  "calculate_current_spread_metrics sample_scipy scenario_spread zero_long_ticks (1 / 100)
     = Inr None
   \<and> monitor sample_scipy scenario_backtester scenario_spread (3 / 5) (Num (1 / 8))
        [(3540, zero_long_ticks), (3600, scenario_exit_ticks)]
      = monitor sample_scipy scenario_backtester scenario_spread (3 / 5) (Num (1 / 8))
        [(3600, scenario_exit_ticks)]
   \<and> fst (snd (locate_prices scenario_spread (None, None, None) zero_long_ticks)) = Some 0"
  using zero_price_skips [where spread = scenario_spread and current_data = zero_long_ticks
      and sp = "Some (1 / 2)" and lp = "Some 0" and u = "Some 569" and lib = sample_scipy
      and bt = scenario_backtester and tpp = "3 / 5" and dsl = "Num (1 / 8)" and ts = 3540
      and rest = "[(3600, scenario_exit_ticks)]" and before = "[hd zero_long_ticks]"
      and l = "zero_long_ticks ! 1" and after = "[]"]
    zero_long_located
  by (simp add: scenario_backtester_def)

section \<open>Prices and skipped timestamps\<close>

text \<open>When exactly no metrics are returned: a located value is missing or \<open>0.0\<close>, or
  both deltas are computed without an exception and one of them is \<open>None\<close>.\<close>

lemma metrics_none_iff:
  assumes "locate_prices spread (None, None, None) current_data = (sp, lp, u)"
  shows "(calculate_current_spread_metrics lib spread current_data rate = Inr None) =
     (sp = None \<or> sp = Some 0 \<or> lp = None \<or> lp = Some 0 \<or> u = None \<or> u = Some 0
      \<or> (\<exists>a b c t0 ticks short_delta long_delta. current_data = t0 # ticks
             \<and> sp = Some a \<and> lp = Some b \<and> u = Some c
             \<and> calculate_delta lib a (strike_price (short_leg spread))
                    (expiration_date (short_leg spread)) c rate Put (tick_timestamp t0)
                  = Inr short_delta
             \<and> calculate_delta lib b (strike_price (long_leg spread))
                    (expiration_date (long_leg spread)) c rate Put (tick_timestamp t0)
                  = Inr long_delta
             \<and> (short_delta = None \<or> long_delta = None)))"
proof (cases "truthy sp \<and> truthy lp \<and> truthy u")
  case False
  then have "calculate_current_spread_metrics lib spread current_data rate = Inr None"
    using assms by (simp add: metrics_skip)
  moreover have "sp = None \<or> sp = Some 0 \<or> lp = None \<or> lp = Some 0 \<or> u = None \<or> u = Some 0"
    using False by (auto simp: truthy_def split: option.splits)
  ultimately show ?thesis by blast
next
  case True
  then obtain a b c where v: "sp = Some a" "lp = Some b" "u = Some c"
      "a \<noteq> 0" "b \<noteq> 0" "c \<noteq> 0"
    by (auto simp: truthy_def split: option.splits)
  with assms obtain t0 ticks where cd: "current_data = t0 # ticks"
    by (cases current_data) auto
  show ?thesis
    using metrics_value [of spread t0 ticks a b c lib rate] assms v cd
    by (auto split: sum.splits option.splits)
qed

text \<open>
  C7, as amended. For a spread whose legs carry different symbols: at a monitored
  timestamp the short leg's price is the midpoint of the last tick of the group with
  the short leg's symbol, the long leg's price that of the last tick with the long
  leg's symbol, and neither is found when no tick has the symbol. The underlying price
  is the quote of that short-leg tick when it has one; when it has none, it is the
  quote of the long-leg tick that follows it; it is not found when no tick of either
  leg has a quote. When one of the three values is not found, or when the two deltas
  are computed and one of them is unavailable, no metrics are returned and no
  exception is raised; the timestamp is then skipped: the monitor goes on with the
  next timestamp and evaluates no exit condition. When the three values are found and
  are not zero and both deltas are available, the metrics are those of the located
  prices, and the exit conditions evaluated on them decide whether the trade ends at
  this timestamp. With legs of nonzero strike no exception is raised at all.
\<close>

theorem monitored_prices:
  "(current_data = before @ s # after
      \<and> tick_option_symbol s = option_symbol (short_leg spread)
      \<and> (\<forall>t \<in> set after. tick_option_symbol t \<noteq> option_symbol (short_leg spread)) \<longrightarrow>
        fst (locate_prices spread (None, None, None) current_data) = Some (tick_midpoint s)
      \<and> (\<forall>q. tick_underlying_close s = Some q \<longrightarrow>
             snd (snd (locate_prices spread (None, None, None) current_data)) = Some q))
   \<and> ((\<forall>t \<in> set current_data. tick_option_symbol t \<noteq> option_symbol (short_leg spread)) \<longrightarrow>
        fst (locate_prices spread (None, None, None) current_data) = None)
   \<and> (current_data = before @ l # after
      \<and> tick_option_symbol l = option_symbol (long_leg spread)
      \<and> option_symbol (long_leg spread) \<noteq> option_symbol (short_leg spread)
      \<and> (\<forall>t \<in> set after. tick_option_symbol t \<noteq> option_symbol (long_leg spread)) \<longrightarrow>
        fst (snd (locate_prices spread (None, None, None) current_data))
          = Some (tick_midpoint l))
   \<and> ((\<forall>t \<in> set current_data. tick_option_symbol t \<noteq> option_symbol (long_leg spread)) \<longrightarrow>
        fst (snd (locate_prices spread (None, None, None) current_data)) = None)
   \<and> (current_data = before @ s # between @ l # after
      \<and> tick_option_symbol s = option_symbol (short_leg spread)
      \<and> tick_option_symbol l = option_symbol (long_leg spread)
      \<and> option_symbol (long_leg spread) \<noteq> option_symbol (short_leg spread)
      \<and> (\<forall>t \<in> set between. tick_option_symbol t \<noteq> option_symbol (short_leg spread)
                            \<and> tick_option_symbol t \<noteq> option_symbol (long_leg spread))
      \<and> (\<forall>t \<in> set after. tick_option_symbol t \<noteq> option_symbol (short_leg spread))
      \<and> tick_underlying_close s = None \<and> tick_underlying_close l = Some q \<longrightarrow>
        snd (snd (locate_prices spread (None, None, None) current_data)) = Some q)
   \<and> ((\<forall>t \<in> set current_data.
          (tick_option_symbol t = option_symbol (short_leg spread)
            \<or> tick_option_symbol t = option_symbol (long_leg spread))
          \<longrightarrow> tick_underlying_close t = None) \<longrightarrow>
        snd (snd (locate_prices spread (None, None, None) current_data)) = None)
   \<and> (locate_prices spread (None, None, None) current_data = (sp, lp, u)
      \<and> (sp = None \<or> lp = None \<or> u = None) \<longrightarrow>
        calculate_current_spread_metrics lib spread current_data rate = Inr None)
   \<and> (locate_prices spread (None, None, None) (first_tick # others) = (Some a, Some b, Some c)
      \<and> a \<noteq> 0 \<and> b \<noteq> 0 \<and> c \<noteq> 0
      \<and> calculate_delta lib a (strike_price (short_leg spread))
             (expiration_date (short_leg spread)) c rate Put (tick_timestamp first_tick)
           = Inr short_delta
      \<and> calculate_delta lib b (strike_price (long_leg spread))
             (expiration_date (long_leg spread)) c rate Put (tick_timestamp first_tick)
           = Inr long_delta \<longrightarrow>
        (short_delta = None \<or> long_delta = None \<longrightarrow>
           calculate_current_spread_metrics lib spread (first_tick # others) rate = Inr None)
        \<and> (\<forall>x y. short_delta = Some x \<and> long_delta = Some y \<longrightarrow>
             calculate_current_spread_metrics lib spread (first_tick # others) rate =
               Inr (Some \<lparr>current_spread_price = a - b, current_short_price = a,
                            current_long_price = b, current_underlying_price = c,
                            current_short_delta = x, current_long_delta = y,
                            current_total_delta = fsub (fabs x) (fabs y),
                            metrics_timestamp = tick_timestamp first_tick\<rparr>)))
   \<and> (calculate_current_spread_metrics lib spread current_data (bt_risk_free_rate bt)
         = Inr None \<longrightarrow>
        monitor lib bt spread tpp dsl ((ts, current_data) # rest)
          = monitor lib bt spread tpp dsl rest)
   \<and> (entry_timestamp spread < ts
      \<and> calculate_current_spread_metrics lib spread current_data (bt_risk_free_rate bt)
          = Inr (Some m) \<longrightarrow>
        monitor lib bt spread tpp dsl ((ts, current_data) # rest) =
          (case check_exit_conditions spread m tpp dsl of
             None \<Rightarrow> monitor lib bt spread tpp dsl rest
           | Some (st, pnl) \<Rightarrow> Inr (Some (make_result spread st pnl ts))))
   \<and> (strike_price (short_leg spread) \<noteq> 0 \<and> strike_price (long_leg spread) \<noteq> 0 \<longrightarrow>
        (\<forall>raised. calculate_current_spread_metrics lib spread current_data rate
                     \<noteq> Inl raised))"
proof -
  have short: "current_data = before @ s # after
      \<and> tick_option_symbol s = option_symbol (short_leg spread)
      \<and> (\<forall>t \<in> set after. tick_option_symbol t \<noteq> option_symbol (short_leg spread)) \<longrightarrow>
        fst (locate_prices spread (None, None, None) current_data) = Some (tick_midpoint s)
      \<and> (\<forall>q. tick_underlying_close s = Some q \<longrightarrow>
             snd (snd (locate_prices spread (None, None, None) current_data)) = Some q)"
  proof (intro impI conjI allI; elim conjE)
    assume "current_data = before @ s # after"
      "tick_option_symbol s = option_symbol (short_leg spread)"
      "\<forall>t \<in> set after. tick_option_symbol t \<noteq> option_symbol (short_leg spread)"
    then show "fst (locate_prices spread (None, None, None) current_data)
        = Some (tick_midpoint s)"
      by (rule locate_short_price)
  next
    fix q
    assume "tick_underlying_close s = Some q" "current_data = before @ s # after"
      "tick_option_symbol s = option_symbol (short_leg spread)"
      "\<forall>t \<in> set after. tick_option_symbol t \<noteq> option_symbol (short_leg spread)"
    then show "snd (snd (locate_prices spread (None, None, None) current_data)) = Some q"
      using locate_underlying_short by simp
  qed
  have no_short: "(\<forall>t \<in> set current_data.
        tick_option_symbol t \<noteq> option_symbol (short_leg spread)) \<longrightarrow>
      fst (locate_prices spread (None, None, None) current_data) = None"
    using locate_no_short [of current_data spread "(None, None, None)"] by simp
  have long: "current_data = before @ l # after
      \<and> tick_option_symbol l = option_symbol (long_leg spread)
      \<and> option_symbol (long_leg spread) \<noteq> option_symbol (short_leg spread)
      \<and> (\<forall>t \<in> set after. tick_option_symbol t \<noteq> option_symbol (long_leg spread)) \<longrightarrow>
        fst (snd (locate_prices spread (None, None, None) current_data))
          = Some (tick_midpoint l)"
    by (intro impI; elim conjE) (rule locate_long_price)
  have no_long: "(\<forall>t \<in> set current_data.
        tick_option_symbol t \<noteq> option_symbol (long_leg spread)) \<longrightarrow>
      fst (snd (locate_prices spread (None, None, None) current_data)) = None"
    using locate_no_long [of current_data spread "(None, None, None)"] by simp
  have fallback: "current_data = before @ s # between @ l # after
      \<and> tick_option_symbol s = option_symbol (short_leg spread)
      \<and> tick_option_symbol l = option_symbol (long_leg spread)
      \<and> option_symbol (long_leg spread) \<noteq> option_symbol (short_leg spread)
      \<and> (\<forall>t \<in> set between. tick_option_symbol t \<noteq> option_symbol (short_leg spread)
                            \<and> tick_option_symbol t \<noteq> option_symbol (long_leg spread))
      \<and> (\<forall>t \<in> set after. tick_option_symbol t \<noteq> option_symbol (short_leg spread))
      \<and> tick_underlying_close s = None \<and> tick_underlying_close l = Some q \<longrightarrow>
        snd (snd (locate_prices spread (None, None, None) current_data)) = Some q"
    by (intro impI; elim conjE) (rule locate_underlying_fallback)
  have no_quote: "(\<forall>t \<in> set current_data.
          (tick_option_symbol t = option_symbol (short_leg spread)
            \<or> tick_option_symbol t = option_symbol (long_leg spread))
          \<longrightarrow> tick_underlying_close t = None) \<longrightarrow>
        snd (snd (locate_prices spread (None, None, None) current_data)) = None"
    using locate_underlying_none [of "(None, None, None)" current_data spread] by simp
  have missing: "locate_prices spread (None, None, None) current_data = (sp, lp, u)
      \<and> (sp = None \<or> lp = None \<or> u = None) \<longrightarrow>
        calculate_current_spread_metrics lib spread current_data rate = Inr None"
  proof (intro impI; elim conjE)
    assume loc: "locate_prices spread (None, None, None) current_data = (sp, lp, u)"
      and "sp = None \<or> lp = None \<or> u = None"
    then have "\<not> (truthy sp \<and> truthy lp \<and> truthy u)"
      by (auto simp: truthy_def)
    with loc show "calculate_current_spread_metrics lib spread current_data rate = Inr None"
      by (rule metrics_skip)
  qed
  have found: "locate_prices spread (None, None, None) (first_tick # others) = (Some a, Some b, Some c)
      \<and> a \<noteq> 0 \<and> b \<noteq> 0 \<and> c \<noteq> 0
      \<and> calculate_delta lib a (strike_price (short_leg spread))
             (expiration_date (short_leg spread)) c rate Put (tick_timestamp first_tick)
           = Inr short_delta
      \<and> calculate_delta lib b (strike_price (long_leg spread))
             (expiration_date (long_leg spread)) c rate Put (tick_timestamp first_tick)
           = Inr long_delta \<longrightarrow>
        (short_delta = None \<or> long_delta = None \<longrightarrow>
           calculate_current_spread_metrics lib spread (first_tick # others) rate = Inr None)
        \<and> (\<forall>x y. short_delta = Some x \<and> long_delta = Some y \<longrightarrow>
             calculate_current_spread_metrics lib spread (first_tick # others) rate =
               Inr (Some \<lparr>current_spread_price = a - b, current_short_price = a,
                            current_long_price = b, current_underlying_price = c,
                            current_short_delta = x, current_long_delta = y,
                            current_total_delta = fsub (fabs x) (fabs y),
                            metrics_timestamp = tick_timestamp first_tick\<rparr>))"
  proof (intro impI; elim conjE)
    assume loc: "locate_prices spread (None, None, None) (first_tick # others)
        = (Some a, Some b, Some c)"
      and nz: "a \<noteq> 0" "b \<noteq> 0" "c \<noteq> 0"
      and sd: "calculate_delta lib a (strike_price (short_leg spread))
             (expiration_date (short_leg spread)) c rate Put (tick_timestamp first_tick)
           = Inr short_delta"
      and ld: "calculate_delta lib b (strike_price (long_leg spread))
             (expiration_date (long_leg spread)) c rate Put (tick_timestamp first_tick)
           = Inr long_delta"
    note computed = metrics_value [OF loc nz, of lib rate, unfolded sd ld]
    show "(short_delta = None \<or> long_delta = None \<longrightarrow>
           calculate_current_spread_metrics lib spread (first_tick # others) rate = Inr None)
        \<and> (\<forall>x y. short_delta = Some x \<and> long_delta = Some y \<longrightarrow>
             calculate_current_spread_metrics lib spread (first_tick # others) rate =
               Inr (Some \<lparr>current_spread_price = a - b, current_short_price = a,
                            current_long_price = b, current_underlying_price = c,
                            current_short_delta = x, current_long_delta = y,
                            current_total_delta = fsub (fabs x) (fabs y),
                            metrics_timestamp = tick_timestamp first_tick\<rparr>))"
      unfolding computed by (cases short_delta; cases long_delta) simp_all
  qed
  have skip: "calculate_current_spread_metrics lib spread current_data (bt_risk_free_rate bt)
        = Inr None \<longrightarrow>
      monitor lib bt spread tpp dsl ((ts, current_data) # rest)
        = monitor lib bt spread tpp dsl rest"
    by (rule impI) (rule monitor_skip)
  have evaluated: "entry_timestamp spread < ts
      \<and> calculate_current_spread_metrics lib spread current_data (bt_risk_free_rate bt)
          = Inr (Some m) \<longrightarrow>
        monitor lib bt spread tpp dsl ((ts, current_data) # rest) =
          (case check_exit_conditions spread m tpp dsl of
             None \<Rightarrow> monitor lib bt spread tpp dsl rest
           | Some (st, pnl) \<Rightarrow> Inr (Some (make_result spread st pnl ts)))"
    by (intro impI; elim conjE) (rule monitor_step)
  have no_error: "strike_price (short_leg spread) \<noteq> 0
        \<and> strike_price (long_leg spread) \<noteq> 0 \<longrightarrow>
        (\<forall>raised. calculate_current_spread_metrics lib spread current_data rate
                     \<noteq> Inl raised)"
    by (intro impI allI; elim conjE) (rule metrics_no_error)
  show ?thesis
    by (intro conjI)
       (rule short no_short long no_long fallback no_quote missing found skip evaluated
          no_error)+
qed

text \<open>
  C7 as stated fails: in \<open>failed_delta_ticks\<close> both legs have a midpoint and both
  ticks have an underlying quote, none of them zero, and yet the timestamp is skipped,
  because the short leg's delta cannot be computed (its quote of 600 lies above its
  strike, so no volatility brackets a root); the trade ends at the next timestamp
  instead.
\<close>

theorem failed_delta_skipped:
  "locate_prices scenario_spread (None, None, None) failed_delta_ticks
     = (Some 600, Some (1 / 2), Some 571)
   \<and> calculate_delta sample_scipy 600 570 3600 571 (1 / 100) Put 1800 = Inr None
   \<and> calculate_current_spread_metrics sample_scipy scenario_spread failed_delta_ticks (1 / 100)
     = Inr None
   \<and> monitor sample_scipy scenario_backtester scenario_spread (3 / 5) (Num (1 / 8))
        [(1800, failed_delta_ticks), (3600, scenario_exit_ticks)]
     = Inr (Some \<lparr>status = TargetProfit, theoretical_pnl = 65,
                   short_put_symbol = ''SPY250616P00570000'',
                   long_put_symbol = ''SPY250616P00567000'',
                   entry_time = 0, exit_time = 3600, result_credit_received = 6 / 5,
                   result_spread_width = 3, iteration = None\<rparr>)"
proof -
  have loc: "locate_prices scenario_spread (None, None, None) failed_delta_ticks
     = (Some 600, Some (1 / 2), Some 571)"
    by (simp add: failed_delta_ticks_def scenario_spread_def quote_def locate_tick_def)
  have legs: "strike_price (short_leg scenario_spread) = 570"
    "strike_price (long_leg scenario_spread) = 567"
    "expiration_date (short_leg scenario_spread) = 3600"
    "expiration_date (long_leg scenario_spread) = 3600"
    "entry_timestamp scenario_spread = 0"
    by (simp_all add: scenario_spread_def)
  obtain long_delta where long_delta:
    "calculate_delta sample_scipy (1 / 2) 567 3600 571 (1 / 100) Put 1800 = Inr long_delta"
    using calculate_delta_no_error [of 567 sample_scipy "1 / 2" 3600 571 "1 / 100" Put 1800]
    by (cases "calculate_delta sample_scipy (1 / 2) 567 3600 571 (1 / 100) Put 1800") auto
  have none: "calculate_current_spread_metrics sample_scipy scenario_spread failed_delta_ticks
      (1 / 100) = Inr None"
    using metrics_value [of scenario_spread "hd failed_delta_ticks" "tl failed_delta_ticks"
        600 "1 / 2" 571 sample_scipy "1 / 100"] loc failed_delta long_delta
    by (simp add: failed_delta_ticks_def legs quote_def)
  have later: "check_exit_conditions scenario_spread scenario_exit_metrics (3 / 5)
      (Num (1 / 8)) = Some (TargetProfit, 65)"
    by (simp add: check_exit_conditions_def scenario_exit_metrics_def scenario_spread_def)
  have monitored: "monitor sample_scipy scenario_backtester scenario_spread (3 / 5)
        (Num (1 / 8)) [(1800, failed_delta_ticks), (3600, scenario_exit_ticks)]
     = Inr (Some \<lparr>status = TargetProfit, theoretical_pnl = 65,
                   short_put_symbol = ''SPY250616P00570000'',
                   long_put_symbol = ''SPY250616P00567000'',
                   entry_time = 0, exit_time = 3600, result_credit_received = 6 / 5,
                   result_spread_width = 3, iteration = None\<rparr>)"
    using none later scenario_metrics
    by (simp add: legs scenario_backtester_def) (simp add: make_result_def scenario_spread_def)
  from loc failed_delta none monitored show ?thesis
    by (intro conjI)
qed

lemma fallback_located:
  "locate_prices scenario_spread (None, None, None) fallback_ticks
     = (Some 2, Some 1, Some 569)"
  by (simp add: fallback_ticks_def scenario_spread_def quote_def locate_tick_def)

lemma short_only_located:
  "locate_prices scenario_spread (None, None, None) short_only_ticks
     = (Some 2, None, Some 571)"
  by (simp add: short_only_ticks_def scenario_spread_def quote_def locate_tick_def)

theorem monitored_prices_witness:
  "fst (locate_prices scenario_spread (None, None, None) fallback_ticks) = Some 2
   \<and> fst (snd (locate_prices scenario_spread (None, None, None) fallback_ticks)) = Some 1
   \<and> snd (snd (locate_prices scenario_spread (None, None, None) fallback_ticks)) = Some 569
   \<and> calculate_current_spread_metrics sample_scipy scenario_spread fallback_ticks (1 / 100)
     = Inr (Some \<lparr>current_spread_price = 1, current_short_price = 2,
                   current_long_price = 1, current_underlying_price = 569,
                   current_short_delta = Num (- 1), current_long_delta = Num 0,
                   current_total_delta = Num 1, metrics_timestamp = 3600\<rparr>)
   \<and> monitor sample_scipy scenario_backtester scenario_spread (3 / 5) (Num (1 / 8))
        [(3600, fallback_ticks)]
     = Inr (Some (make_result scenario_spread DeltaStopLoss 20 3600))
   \<and> fst (snd (locate_prices scenario_spread (None, None, None) short_only_ticks)) = None
   \<and> calculate_current_spread_metrics sample_scipy scenario_spread short_only_ticks (1 / 100)
     = Inr None
   \<and> monitor sample_scipy scenario_backtester scenario_spread (3 / 5) (Num (1 / 8))
        [(3540, short_only_ticks), (3600, scenario_exit_ticks)]
      = monitor sample_scipy scenario_backtester scenario_spread (3 / 5) (Num (1 / 8))
        [(3600, scenario_exit_ticks)]
   \<and> calculate_current_spread_metrics sample_scipy scenario_spread failed_delta_ticks (1 / 100)
     = Inr None"
proof -
  let ?s = "quote ''SPY250616P00570000'' 3600 2 570 3600 None"
  let ?l = "quote ''SPY250616P00567000'' 3600 1 567 3600 (Some 569)"
  let ?m = "\<lparr>current_spread_price = 1, current_short_price = 2,
             current_long_price = 1, current_underlying_price = 569,
             current_short_delta = Num (- 1), current_long_delta = Num 0,
             current_total_delta = Num 1, metrics_timestamp = 3600\<rparr>"
  have sym: "option_symbol (short_leg scenario_spread) = ''SPY250616P00570000''"
    "option_symbol (long_leg scenario_spread) = ''SPY250616P00567000''"
    "strike_price (short_leg scenario_spread) = 570"
    "strike_price (long_leg scenario_spread) = 567"
    "expiration_date (short_leg scenario_spread) = 3600"
    "expiration_date (long_leg scenario_spread) = 3600"
    "entry_timestamp scenario_spread = 0"
    "credit_received scenario_spread = 6 / 5"
    by (simp_all add: scenario_spread_def)
  note w = monitored_prices [where spread = scenario_spread and current_data = fallback_ticks
      and before = "[]" and s = ?s and between = "[]" and l = ?l and after = "[?l]" and q = 569
      and sp = "Some 2" and lp = "Some 1" and u = "Some 569"
      and first_tick = ?s and others = "[?l]" and a = 2 and b = 1 and c = 569
      and short_delta = "Some (Num (- 1))" and long_delta = "Some (Num 0)"
      and lib = sample_scipy and rate = "1 / 100" and bt = scenario_backtester
      and tpp = "3 / 5" and dsl = "Num (1 / 8)" and ts = 3600 and rest = "[]" and m = ?m]
  note w4 = monitored_prices [where spread = scenario_spread and current_data = fallback_ticks
      and before = "[]" and s = ?s and between = "[]" and l = ?l and after = "[]" and q = 569]
  note w2 = monitored_prices [where spread = scenario_spread and current_data = fallback_ticks
      and before = "[?s]" and l = ?l and after = "[]"]
  note w3 = monitored_prices [where spread = scenario_spread
      and current_data = short_only_ticks
      and sp = "Some 2" and lp = None and u = "Some 571"
      and lib = sample_scipy and rate = "1 / 100" and bt = scenario_backtester
      and tpp = "3 / 5" and dsl = "Num (1 / 8)" and ts = 3540
      and rest = "[(3600, scenario_exit_ticks)]"]
  have short: "fst (locate_prices scenario_spread (None, None, None) fallback_ticks)
      = Some 2"
    using w by (simp add: sym fallback_ticks_def quote_def)
  have long: "fst (snd (locate_prices scenario_spread (None, None, None) fallback_ticks))
      = Some 1"
    using w2 by (simp add: sym fallback_ticks_def quote_def)
  have und: "snd (snd (locate_prices scenario_spread (None, None, None) fallback_ticks))
      = Some 569"
    using w4 by (simp add: sym fallback_ticks_def quote_def)
  have deltas: "calculate_delta sample_scipy 2 570 3600 569 (1 / 100) Put 3600
      = Inr (Some (Num (- 1)))"
    "calculate_delta sample_scipy 1 567 3600 569 (1 / 100) Put 3600 = Inr (Some (Num 0))"
    by (simp_all add: calculate_delta_def time_to_expiry_def)
  have metrics: "calculate_current_spread_metrics sample_scipy scenario_spread fallback_ticks
      (1 / 100) = Inr (Some ?m)"
    using w fallback_located deltas
    by (simp add: sym fallback_ticks_def quote_def)
  have exit: "check_exit_conditions scenario_spread ?m (3 / 5) (Num (1 / 8))
      = Some (DeltaStopLoss, 20)"
    by (simp add: check_exit_conditions_def sym fge_def)
  have monitored: "monitor sample_scipy scenario_backtester scenario_spread (3 / 5)
        (Num (1 / 8)) [(3600, fallback_ticks)]
     = Inr (Some (make_result scenario_spread DeltaStopLoss 20 3600))"
    using w metrics exit by (simp add: sym scenario_backtester_def)
  have no_long: "fst (snd (locate_prices scenario_spread (None, None, None) short_only_ticks))
      = None"
    using w3 by (simp add: sym short_only_ticks_def quote_def)
  have none: "calculate_current_spread_metrics sample_scipy scenario_spread short_only_ticks
      (1 / 100) = Inr None"
    using w3 short_only_located by simp
  have skip: "monitor sample_scipy scenario_backtester scenario_spread (3 / 5) (Num (1 / 8))
        [(3540, short_only_ticks), (3600, scenario_exit_ticks)]
      = monitor sample_scipy scenario_backtester scenario_spread (3 / 5) (Num (1 / 8))
        [(3600, scenario_exit_ticks)]"
    using w3 none by (simp add: scenario_backtester_def)
  obtain long_delta where long_delta:
    "calculate_delta sample_scipy (1 / 2) 567 3600 571 (1 / 100) Put 1800 = Inr long_delta"
    using calculate_delta_no_error [of 567 sample_scipy "1 / 2" 3600 571 "1 / 100" Put 1800]
    by (cases "calculate_delta sample_scipy (1 / 2) 567 3600 571 (1 / 100) Put 1800") auto
  have failed_located: "locate_prices scenario_spread (None, None, None) failed_delta_ticks
     = (Some 600, Some (1 / 2), Some 571)"
    by (simp add: failed_delta_ticks_def scenario_spread_def quote_def locate_tick_def)
  have failed: "calculate_current_spread_metrics sample_scipy scenario_spread
      failed_delta_ticks (1 / 100) = Inr None"
    using monitored_prices [where spread = scenario_spread
        and first_tick = "hd failed_delta_ticks" and others = "tl failed_delta_ticks"
        and a = 600 and b = "1 / 2" and c = 571 and lib = sample_scipy and rate = "1 / 100"
        and short_delta = None and long_delta = long_delta]
      failed_located failed_delta long_delta
    by (simp add: sym failed_delta_ticks_def quote_def)
  from short long und metrics monitored no_long none skip failed show ?thesis
    by (intro conjI)
qed

text \<open>
  The fallback depends on the order of the ticks. With the long leg's tick first and the
  short leg's tick, which has no quote, second, the quote found on the long leg's tick
  is overwritten by \<open>None\<close>, and the timestamp is skipped.
\<close>

lemma long_tick_first_loses_quote:
  "locate_prices scenario_spread (None, None, None) (rev fallback_ticks)
     = (Some 2, Some 1, None)
   \<and> calculate_current_spread_metrics sample_scipy scenario_spread (rev fallback_ticks)
         (1 / 100) = Inr None"
  by (simp add: calculate_current_spread_metrics_def fallback_ticks_def scenario_spread_def
      quote_def locate_tick_def truthy_def)

text \<open>
  When the two legs carry one symbol, as in a spread of width 0, every tick with that
  symbol is taken for the short leg: the long leg's price is never located, and every
  timestamp is skipped.
\<close>

lemma same_symbol_never_monitored:
  assumes "option_symbol (long_leg spread) = option_symbol (short_leg spread)"
  shows "fst (snd (locate_prices spread (None, None, None) current_data)) = None"
    and "calculate_current_spread_metrics lib spread current_data rate = Inr None"
proof -
  show none: "fst (snd (locate_prices spread (None, None, None) current_data)) = None"
    using locate_no_long [of current_data spread "(None, None, None)"] assms by simp
  obtain sp lp u where loc: "locate_prices spread (None, None, None) current_data = (sp, lp, u)"
    by (cases "locate_prices spread (None, None, None) current_data") auto
  with none have "\<not> (truthy sp \<and> truthy lp \<and> truthy u)"
    by (simp add: truthy_def)
  with loc show "calculate_current_spread_metrics lib spread current_data rate = Inr None"
    by (rule metrics_skip)
qed

section \<open>Spread finder: assignment of a tick\<close>

text \<open>
  C6, as amended. A tick whose delta lies in both bands becomes the short leg when the
  short slot is empty, and the long slot is then left as it was; when the short slot is
  occupied, the tick becomes the long leg.
\<close>

theorem both_bands_assignment:
  "in_range (short_put_delta_range sel) d \<and> in_range (long_put_delta_range sel) d \<longrightarrow>
     assign_leg sel (None, long_put) t underlying d
       = (Some (create_option_leg t underlying d), long_put)
     \<and> assign_leg sel (Some short_put, long_put) t underlying d
       = (Some short_put, Some (create_option_leg t underlying d))"
  by (simp add: assign_leg_def)

text \<open>
  C6 as stated fails: with the default bands a delta of \<open>-0.30\<close> lies in both, and
  with the short slot occupied the tick is assigned as the long leg. A whole search
  shows the same: the second tick's delta \<open>-1.0\<close> lies in both bands of
  \<open>expiry_selector\<close>, and it is the long leg of the spread returned.
\<close>

theorem both_bands_long_leg:
  "in_range (short_put_delta_range default_selector) (Num (- 3 / 10))
   \<and> in_range (long_put_delta_range default_selector) (Num (- 3 / 10))
   \<and> assign_leg default_selector (Some (short_leg scenario_spread), None)
        (quote ''SPY250616P00567000'' 60 (4 / 5) 567 3600 (Some 572)) 572 (Num (- 3 / 10))
     = (Some (short_leg scenario_spread),
        Some (create_option_leg (quote ''SPY250616P00567000'' 60 (4 / 5) 567 3600 (Some 572))
                572 (Num (- 3 / 10))))
   \<and> find_spread sample_scipy (expiry_selector (2, 4))
        [(3600, [quote ''SPY250616P00570000'' 3600 6 570 3600 (Some 565),
                 quote ''SPY250616P00567000'' 3600 3 567 3600 (Some 565)])] Put
     = Inr (Some \<lparr>short_leg = create_option_leg
                  (quote ''SPY250616P00570000'' 3600 6 570 3600 (Some 565)) 565 (Num (- 1)),
              long_leg = create_option_leg
                  (quote ''SPY250616P00567000'' 3600 3 567 3600 (Some 565)) 565 (Num (- 1)),
              credit_received = 3, entry_timestamp = 3600, spread_width = 3\<rparr>)"
  by (simp add: default_selector_def expiry_selector_def in_range_def assign_leg_def
      find_spread_def process_tick_def validate_spread_def calculate_delta_def
      time_to_expiry_def quote_def create_option_leg_def)

theorem both_bands_assignment_witness:
  "assign_leg default_selector (None, None)
        (quote ''SPY250616P00567000'' 60 (4 / 5) 567 3600 (Some 572)) 572 (Num (- 3 / 10))
     = (Some (create_option_leg (quote ''SPY250616P00567000'' 60 (4 / 5) 567 3600 (Some 572))
                572 (Num (- 3 / 10))), None)"
  using both_bands_assignment [where sel = default_selector and d = "Num (- 3 / 10)"
      and long_put = None
      and t = "quote ''SPY250616P00567000'' 60 (4 / 5) 567 3600 (Some 572)"
      and underlying = 572]
  by (simp add: default_selector_def in_range_def)

section \<open>Spread finder: the spread returned\<close>

lemma scan_ticks_append:
  "scan_ticks lib sel kind st (xs @ ys) =
     (case scan_ticks lib sel kind st xs of
        Inr (Inr st') \<Rightarrow> scan_ticks lib sel kind st' ys
      | outcome \<Rightarrow> outcome)"
  by (induction xs arbitrary: st) (auto split: sum.splits)

lemma assign_leg_of:
  assumes "slots_of ticks st" and "t \<in> set ticks"
  shows "slots_of ticks (assign_leg sel st t underlying d)"
  using assms
  by (auto simp: slots_of_def assign_leg_def leg_of_def create_option_leg_def list_ex_iff
      split: option.splits)

lemma validate_spread_cases:
  "validate_spread sel st t = Inr st' \<Longrightarrow> st' = st \<or> st' = (None, None)"
  by (auto simp: validate_spread_def Let_def split: prod.splits option.splits if_splits)

lemma validate_spread_found:
  assumes "validate_spread sel st t = Inl spread" and "slots_of ticks st" and "t \<in> set ticks"
  shows "spread_from sel ticks spread"
proof -
  from assms(1) obtain short_put long_put where
    st: "st = (Some short_put, Some long_put)"
    by (auto simp: validate_spread_def split: prod.splits option.splits)
  from assms(1) have ok: "width_ok sel \<bar>strike_price short_put - strike_price long_put\<bar>"
    by (auto simp: validate_spread_def st Let_def width_ok_def split: if_splits)
  with assms(1) have sp: "spread =
      \<lparr>short_leg = short_put, long_leg = long_put,
       credit_received = option_price short_put - option_price long_put,
       entry_timestamp = tick_timestamp t,
       spread_width = \<bar>strike_price short_put - strike_price long_put\<bar>\<rparr>"
    by (auto simp: validate_spread_def st Let_def width_ok_def split: if_splits)
  from assms(2) have legs: "leg_of ticks short_put" "leg_of ticks long_put"
    by (simp_all add: slots_of_def st)
  from assms(3) have "list_ex (\<lambda>t'. tick_timestamp t = tick_timestamp t') ticks"
    by (auto simp: list_ex_iff)
  with ok legs show ?thesis
    by (simp add: spread_from_def sp)
qed

lemma slots_of_empty: "slots_of ticks (None, None)"
  by (simp add: slots_of_def)

lemma process_tick_slots:
  assumes "slots_of ticks st" and "t \<in> set ticks"
    and "process_tick lib sel kind st t = Inr (Inr st')"
  shows "slots_of ticks st'"
proof (cases "tick_underlying_close t")
  case None
  with assms show ?thesis by (simp add: process_tick_def)
next
  case (Some u)
  show ?thesis
  proof (cases "calculate_delta lib (tick_midpoint t) (tick_strike_price t) (tick_expiry t) u
                  (risk_free_rate sel) kind (tick_timestamp t)")
    case (Inl raised)
    with \<open>tick_underlying_close t = Some u\<close> assms(3) show ?thesis
      by (simp add: process_tick_def)
  next
    case (Inr computed)
    show ?thesis
    proof (cases computed)
      case None
      with Inr \<open>tick_underlying_close t = Some u\<close> assms show ?thesis
        by (simp add: process_tick_def)
    next
      case (Some d)
      with Inr \<open>tick_underlying_close t = Some u\<close> assms(3)
      have "validate_spread sel (assign_leg sel st t u d) t = Inr st'"
        by (simp add: process_tick_def)
      then have "st' = assign_leg sel st t u d \<or> st' = (None, None)"
        by (rule validate_spread_cases)
      then show ?thesis
        using assign_leg_of [OF assms(1,2), of sel u d] slots_of_empty [of ticks] by auto
    qed
  qed
qed

lemma process_tick_found:
  assumes "slots_of ticks st" and "t \<in> set ticks"
    and "process_tick lib sel kind st t = Inr (Inl spread)"
  shows "spread_from sel ticks spread"
proof -
  from assms(3) obtain u d where
    v: "validate_spread sel (assign_leg sel st t u d) t = Inl spread"
    by (auto simp: process_tick_def split: option.splits sum.splits)
  have s: "slots_of ticks (assign_leg sel st t u d)"
    using assms(1,2) by (rule assign_leg_of)
  from v s assms(2) show ?thesis
    by (rule validate_spread_found)
qed

lemma scan_ticks_found:
  assumes "slots_of ticks st" and "set xs \<subseteq> set ticks"
  shows "case scan_ticks lib sel kind st xs of
           Inl raised \<Rightarrow> True
         | Inr (Inl spread) \<Rightarrow> spread_from sel ticks spread
         | Inr (Inr st') \<Rightarrow> slots_of ticks st'"
  using assms
proof (induction xs arbitrary: st)
  case Nil
  then show ?case by simp
next
  case (Cons t xs)
  then have t: "t \<in> set ticks" and xs: "set xs \<subseteq> set ticks" by simp_all
  show ?case
  proof (cases "process_tick lib sel kind st t")
    case (Inl raised)
    then show ?thesis by simp
  next
    case (Inr outcome)
    show ?thesis
    proof (cases outcome)
      case (Inl spread)
      with Inr have "spread_from sel ticks spread"
        using process_tick_found [OF Cons.prems(1) t] by simp
      with Inr Inl show ?thesis by simp
    next
      case (Inr st1)
      with \<open>process_tick lib sel kind st t = Inr outcome\<close> have "slots_of ticks st1"
        using process_tick_slots [OF Cons.prems(1) t] by simp
      then have "case scan_ticks lib sel kind st1 xs of
             Inl raised \<Rightarrow> True
           | Inr (Inl spread) \<Rightarrow> spread_from sel ticks spread
           | Inr (Inr st') \<Rightarrow> slots_of ticks st'"
        using xs by (rule Cons.IH)
      with Inr \<open>process_tick lib sel kind st t = Inr outcome\<close> show ?thesis by simp
    qed
  qed
qed

lemma scan_timestamps_found:
  assumes "slots_of ticks st" and "set (all_ticks xs) \<subseteq> set ticks"
    and "scan_timestamps lib sel kind st xs = Inr (Some spread)"
  shows "spread_from sel ticks spread"
  using assms
proof (induction xs arbitrary: st)
  case Nil
  then show ?case by simp
next
  case (Cons x xs)
  obtain k tick_data_list where x: "x = (k, tick_data_list)" by (cases x)
  have sub: "set tick_data_list \<subseteq> set ticks" "set (all_ticks xs) \<subseteq> set ticks"
    using Cons.prems(2) by (simp_all add: all_ticks_def x)
  note here = scan_ticks_found [OF Cons.prems(1) sub(1), where lib = lib and sel = sel and kind = kind]
  show ?case
  proof (cases "scan_ticks lib sel kind st tick_data_list")
    case (Inl raised)
    with Cons.prems(3) show ?thesis by (simp add: x)
  next
    case (Inr outcome)
    show ?thesis
    proof (cases outcome)
      case (Inl sp)
      with Inr Cons.prems(3) have "sp = spread" by (simp add: x)
      with here Inr Inl show ?thesis by simp
    next
      case (Inr st1)
      with here \<open>scan_ticks lib sel kind st tick_data_list = Inr outcome\<close>
      have st1: "slots_of ticks st1" by simp
      from Inr \<open>scan_ticks lib sel kind st tick_data_list = Inr outcome\<close> Cons.prems(3)
      have "scan_timestamps lib sel kind st1 xs = Inr (Some spread)"
        by (simp add: x)
      with st1 sub(2) show ?thesis by (rule Cons.IH)
    qed
  qed
qed

lemma find_spread_found:
  assumes "find_spread lib sel historical_data_by_timestamp kind = Inr (Some spread)"
  shows "spread_from sel (all_ticks historical_data_by_timestamp) spread"
proof -
  have "scan_timestamps lib sel kind (None, None) historical_data_by_timestamp
      = Inr (Some spread)"
    using assms by (simp add: find_spread_def)
  with slots_of_empty subset_refl show ?thesis
    by (rule scan_timestamps_found)
qed

lemma same_symbol_same_strike:
  assumes "strike_by_symbol ticks" and "leg_of ticks a" and "leg_of ticks b"
    and "option_symbol a = option_symbol b"
  shows "strike_price a = strike_price b"
proof -
  from assms(2) obtain t1 where t1: "t1 \<in> set ticks"
      "option_symbol a = tick_option_symbol t1" "strike_price a = tick_strike_price t1"
    unfolding leg_of_def list_ex_iff by blast
  from assms(3) obtain t2 where t2: "t2 \<in> set ticks"
      "option_symbol b = tick_option_symbol t2" "strike_price b = tick_strike_price t2"
    unfolding leg_of_def list_ex_iff by blast
  from assms(1) t1(1) t2(1)
  have "tick_option_symbol t1 = tick_option_symbol t2
          \<longrightarrow> tick_strike_price t1 = tick_strike_price t2"
    unfolding strike_by_symbol_def list_all_iff by blast
  moreover have "tick_option_symbol t1 = tick_option_symbol t2"
    using assms(4) t1(2) t2(2) by simp
  ultimately show ?thesis
    using t1(3) t2(3) by simp
qed

text \<open>
  C3. When, after a tick's assignment, both slots are set and the width is outside the
  configured range, the tick's step ends with both slots empty, and the scan of the
  rest is the scan that starts from empty slots: the search from there on is the
  search of the remaining ticks alone, so nothing of the discarded legs is used again.
\<close>

theorem width_mismatch_resets:
  "tick_underlying_close t = Some underlying
   \<and> calculate_delta lib (tick_midpoint t) (tick_strike_price t) (tick_expiry t) underlying
        (risk_free_rate sel) kind (tick_timestamp t) = Inr (Some d)
   \<and> assign_leg sel st t underlying d = (Some short_put, Some long_put)
   \<and> \<not> (fst (spread_width_range sel) \<le> \<bar>strike_price short_put - strike_price long_put\<bar>
         \<and> \<bar>strike_price short_put - strike_price long_put\<bar> \<le> snd (spread_width_range sel))
   \<longrightarrow>
     process_tick lib sel kind st t = Inr (Inr (None, None))
     \<and> scan_ticks lib sel kind st (t # ts) = scan_ticks lib sel kind (None, None) ts
     \<and> scan_timestamps lib sel kind st ((k, t # ts) # rest)
         = find_spread lib sel ((k, ts) # rest) kind
     \<and> (scan_ticks lib sel kind (None, None) earlier = Inr (Inr st) \<longrightarrow>
          find_spread lib sel ((k, earlier @ t # ts) # rest) kind
            = find_spread lib sel ((k, ts) # rest) kind)"
  by (simp add: process_tick_def validate_spread_def find_spread_def scan_ticks_append)



lemma expired_put_delta:
  "calculate_delta lib (tick_midpoint (put_570 3600)) (tick_strike_price (put_570 3600))
     (tick_expiry (put_570 3600)) 565 r Put (tick_timestamp (put_570 3600))
     = Inr (Some (Num (- 1)))"
  "calculate_delta lib (tick_midpoint (put_569 3600)) (tick_strike_price (put_569 3600))
     (tick_expiry (put_569 3600)) 565 r Put (tick_timestamp (put_569 3600))
     = Inr (Some (Num (- 1)))"
  "calculate_delta lib (tick_midpoint (put_567 3600)) (tick_strike_price (put_567 3600))
     (tick_expiry (put_567 3600)) 565 r Put (tick_timestamp (put_567 3600))
     = Inr (Some (Num (- 1)))"
  "calculate_delta lib (tick_midpoint (put_570 3660)) (tick_strike_price (put_570 3660))
     (tick_expiry (put_570 3660)) 565 r Put (tick_timestamp (put_570 3660))
     = Inr (Some (Num (- 1)))"
  by (simp_all add: put_570_def put_569_def put_567_def quote_def calculate_delta_def
      time_to_expiry_def)

lemma expired_put_underlying:
  "tick_underlying_close (put_570 ts) = Some 565"
  "tick_underlying_close (put_569 ts) = Some 565"
  "tick_underlying_close (put_567 ts) = Some 565"
  by (simp_all add: put_570_def put_569_def put_567_def quote_def)

lemma expiry_selector_simps:
  "in_range (short_put_delta_range (expiry_selector w)) (Num (- 1))"
  "in_range (long_put_delta_range (expiry_selector w)) (Num (- 1))"
  "spread_width_range (expiry_selector w) = w"
  "risk_free_rate (expiry_selector w) = 1 / 100"
  by (simp_all add: expiry_selector_def in_range_def)

lemma found_570_567:
  "find_spread lib (expiry_selector (2, 4)) [(3600, [put_570 3600, put_567 3600])] Put
     = Inr (Some \<lparr>short_leg = create_option_leg (put_570 3600) 565 (Num (- 1)),
              long_leg = create_option_leg (put_567 3600) 565 (Num (- 1)),
              credit_received = 3, entry_timestamp = 3600, spread_width = 3\<rparr>)"
  by (simp add: find_spread_def process_tick_def expired_put_delta expired_put_underlying
        expiry_selector_simps assign_leg_def validate_spread_def)
     (simp add: create_option_leg_def put_570_def put_567_def quote_def)

theorem width_mismatch_resets_witness:
  "process_tick sample_scipy (expiry_selector (2, 4)) Put
       (Some (create_option_leg (put_570 3600) 565 (Num (- 1))), None) (put_569 3600)
     = Inr (Inr (None, None))
   \<and> find_spread sample_scipy (expiry_selector (2, 4))
        [(3600, [put_570 3600, put_569 3600, put_570 3600, put_567 3600])] Put
     = Inr (Some \<lparr>short_leg = create_option_leg (put_570 3600) 565 (Num (- 1)),
              long_leg = create_option_leg (put_567 3600) 565 (Num (- 1)),
              credit_received = 3, entry_timestamp = 3600, spread_width = 3\<rparr>)"
proof -
  let ?sel = "expiry_selector (2, 4)"
  let ?st = "(Some (create_option_leg (put_570 3600) 565 (Num (- 1))), None :: OptionLeg option)"
  have scan: "scan_ticks sample_scipy ?sel Put (None, None) [put_570 3600] = Inr (Inr ?st)"
    by (simp add: process_tick_def expired_put_delta expired_put_underlying
        expiry_selector_simps assign_leg_def validate_spread_def)
  have assign: "assign_leg ?sel ?st (put_569 3600) 565 (Num (- 1))
      = (Some (create_option_leg (put_570 3600) 565 (Num (- 1))),
         Some (create_option_leg (put_569 3600) 565 (Num (- 1))))"
    by (simp add: expiry_selector_simps assign_leg_def)
  have width: "\<bar>strike_price (create_option_leg (put_570 3600) 565 (Num (- 1)))
      - strike_price (create_option_leg (put_569 3600) 565 (Num (- 1)))\<bar> = 1"
    by (simp add: create_option_leg_def put_570_def put_569_def quote_def)
  show ?thesis
    using width_mismatch_resets [where t = "put_569 3600" and underlying = 565
        and lib = sample_scipy and sel = ?sel and kind = Put and d = "Num (- 1)"
        and st = ?st
        and short_put = "create_option_leg (put_570 3600) 565 (Num (- 1))"
        and long_put = "create_option_leg (put_569 3600) 565 (Num (- 1))"
        and ts = "[put_570 3600, put_567 3600]" and k = 3600 and rest = "[]"
        and earlier = "[put_570 3600]"]
      scan assign width found_570_567 [of sample_scipy]
    by (simp add: expired_put_delta expired_put_underlying expiry_selector_simps)
qed

text \<open>
  C2, as amended. Every spread returned has width equal to the distance of its legs'
  strikes, and this width lies in the configured range, both ends included. When the
  least configured width is positive the legs have different strikes, and then also
  different symbols, provided ticks with one symbol carry one strike.
\<close>

theorem returned_spread_width:
  "find_spread lib sel historical_data_by_timestamp kind = Inr (Some spread) \<longrightarrow>
     spread_width spread = \<bar>strike_price (short_leg spread) - strike_price (long_leg spread)\<bar>
     \<and> fst (spread_width_range sel) \<le> spread_width spread
     \<and> spread_width spread \<le> snd (spread_width_range sel)
     \<and> (0 < fst (spread_width_range sel) \<longrightarrow>
          strike_price (short_leg spread) \<noteq> strike_price (long_leg spread))
     \<and> (0 < fst (spread_width_range sel)
          \<and> strike_by_symbol (all_ticks historical_data_by_timestamp) \<longrightarrow>
          option_symbol (short_leg spread) \<noteq> option_symbol (long_leg spread))"
proof
  assume "find_spread lib sel historical_data_by_timestamp kind = Inr (Some spread)"
  then have "spread_from sel (all_ticks historical_data_by_timestamp) spread"
    by (rule find_spread_found)
  then have legs: "leg_of (all_ticks historical_data_by_timestamp) (short_leg spread)"
      "leg_of (all_ticks historical_data_by_timestamp) (long_leg spread)"
    and width: "spread_width spread
      = \<bar>strike_price (short_leg spread) - strike_price (long_leg spread)\<bar>"
    and ok: "fst (spread_width_range sel) \<le> spread_width spread"
      "spread_width spread \<le> snd (spread_width_range sel)"
    by (simp_all add: spread_from_def width_ok_def)
  have strikes: "strike_price (short_leg spread) \<noteq> strike_price (long_leg spread)"
    if "0 < fst (spread_width_range sel)"
    using that width ok(1) by auto
  have symbols: "option_symbol (short_leg spread) \<noteq> option_symbol (long_leg spread)"
    if "0 < fst (spread_width_range sel)
        \<and> strike_by_symbol (all_ticks historical_data_by_timestamp)"
    using that strikes same_symbol_same_strike [OF _ legs] by blast
  show "spread_width spread = \<bar>strike_price (short_leg spread) - strike_price (long_leg spread)\<bar>
     \<and> fst (spread_width_range sel) \<le> spread_width spread
     \<and> spread_width spread \<le> snd (spread_width_range sel)
     \<and> (0 < fst (spread_width_range sel) \<longrightarrow>
          strike_price (short_leg spread) \<noteq> strike_price (long_leg spread))
     \<and> (0 < fst (spread_width_range sel)
          \<and> strike_by_symbol (all_ticks historical_data_by_timestamp) \<longrightarrow>
          option_symbol (short_leg spread) \<noteq> option_symbol (long_leg spread))"
    using width ok strikes symbols by blast
qed

text \<open>
  C2 as stated fails for a width range that contains 0: the put with strike 570 is
  taken as the short leg at one timestamp and, its delta lying in the long band too, as
  the long leg at the next. The spread returned has width 0 and one symbol on both legs.
\<close>

theorem same_symbol_spread:
  "find_spread sample_scipy (expiry_selector (0, 4))
       [(3600, [put_570 3600]), (3660, [put_570 3660])] Put
     = Inr (Some \<lparr>short_leg = create_option_leg (put_570 3600) 565 (Num (- 1)),
              long_leg = create_option_leg (put_570 3660) 565 (Num (- 1)),
              credit_received = 0, entry_timestamp = 3660, spread_width = 0\<rparr>)
   \<and> option_symbol (create_option_leg (put_570 3600) 565 (Num (- 1)))
     = option_symbol (create_option_leg (put_570 3660) 565 (Num (- 1)))"
  by (simp add: find_spread_def process_tick_def expired_put_delta expired_put_underlying
        expiry_selector_simps assign_leg_def validate_spread_def)
     (simp add: create_option_leg_def put_570_def quote_def)

theorem returned_spread_width_witness:
  "find_spread sample_scipy (expiry_selector (2, 4))
       [(3600, [put_570 3600, put_567 3600])] Put
     = Inr (Some \<lparr>short_leg = create_option_leg (put_570 3600) 565 (Num (- 1)),
              long_leg = create_option_leg (put_567 3600) 565 (Num (- 1)),
              credit_received = 3, entry_timestamp = 3600, spread_width = 3\<rparr>)
   \<and> \<bar>strike_price (create_option_leg (put_570 3600) 565 (Num (- 1)))
        - strike_price (create_option_leg (put_567 3600) 565 (Num (- 1)))\<bar> = 3
   \<and> strike_price (create_option_leg (put_570 3600) 565 (Num (- 1)))
     \<noteq> strike_price (create_option_leg (put_567 3600) 565 (Num (- 1)))
   \<and> option_symbol (create_option_leg (put_570 3600) 565 (Num (- 1)))
     \<noteq> option_symbol (create_option_leg (put_567 3600) 565 (Num (- 1)))"
proof -
  have "strike_by_symbol (all_ticks [(3600, [put_570 3600, put_567 3600])])"
    by (simp add: strike_by_symbol_def all_ticks_def put_570_def put_567_def quote_def)
  then show ?thesis
    using returned_spread_width [where lib = sample_scipy and sel = "expiry_selector (2, 4)"
        and historical_data_by_timestamp = "[(3600, [put_570 3600, put_567 3600])]"
        and kind = Put
        and spread = "\<lparr>short_leg = create_option_leg (put_570 3600) 565 (Num (- 1)),
              long_leg = create_option_leg (put_567 3600) 565 (Num (- 1)),
              credit_received = 3, entry_timestamp = 3600, spread_width = 3\<rparr>"]
      found_570_567 [of sample_scipy]
    by (simp add: expiry_selector_simps)
qed

section \<open>Backtest orchestrator: disjoint trades\<close>

lemma timestamps_match_ticks:
  assumes "timestamps_match xs" and "t \<in> set (all_ticks xs)"
  shows "tick_timestamp t \<in> fst ` set xs"
proof -
  from assms(2) obtain k ticks where kt: "(k, ticks) \<in> set xs" "t \<in> set ticks"
    by (auto simp: all_ticks_def)
  with assms(1) have "tick_timestamp t = k"
    by (auto simp: timestamps_match_def list_all_iff)
  with kt(1) show ?thesis by force
qed

lemma timestamps_match_filter:
  "timestamps_match xs \<Longrightarrow> timestamps_match (filter P xs)"
  by (simp add: timestamps_match_def list_all_iff)

lemma monitor_entry_time:
  "monitor lib bt spread tpp dsl data = Inr (Some r) \<Longrightarrow>
   entry_time r = entry_timestamp spread"
proof (induction data)
  case Nil
  then show ?case by simp
next
  case (Cons x data)
  obtain ts current_data where x: "x = (ts, current_data)" by (cases x)
  show ?case
  proof (cases "ts \<le> entry_timestamp spread")
    case True
    with Cons show ?thesis by (simp add: x)
  next
    case False
    show ?thesis
    proof (cases "calculate_current_spread_metrics lib spread current_data
                    (bt_risk_free_rate bt)")
      case (Inl raised)
      with False Cons.prems show ?thesis by (simp add: x)
    next
      case (Inr found)
      show ?thesis
      proof (cases found)
        case None
        with False Inr Cons show ?thesis by (simp add: x)
      next
        case (Some m)
        show ?thesis
        proof (cases "check_exit_conditions spread m tpp dsl")
          case None
          with False Inr Some Cons show ?thesis by (simp add: x)
        next
          case (Some exit)
          obtain st pnl where "exit = (st, pnl)" by (cases exit)
          with False Inr \<open>found = Some m\<close> Some Cons.prems
          have "r = make_result spread st pnl ts" by (simp add: x)
          then show ?thesis by (simp add: make_result_fields)
        qed
      qed
    qed
  qed
qed

lemma execute_entry_time:
  assumes "execute_single_trade lib bt filtered_data = Inr (Some r)"
    and "timestamps_match filtered_data"
  shows "entry_time r \<in> fst ` set filtered_data"
proof -
  from assms(1) obtain spread where
    found: "find_spread lib (spread_selector bt) filtered_data Put = Inr (Some spread)"
    by (auto simp: execute_single_trade_def split: sum.splits option.splits)
  let ?monitored = "monitor lib bt spread (credit_received spread * target_profit_percentage bt)
      (fscale (initial_total_delta spread) (delta_stop_loss_multiplier bt)) filtered_data"
  have "entry_time r = entry_timestamp spread"
  proof (cases ?monitored)
    case (Inl raised)
    with assms(1) found show ?thesis
      by (simp add: execute_single_trade_def Let_def)
  next
    case (Inr outcome)
    show ?thesis
    proof (cases outcome)
      case (Some result)
      with Inr assms(1) found have "result = r"
        by (simp add: execute_single_trade_def Let_def)
      with Inr Some show ?thesis
        using monitor_entry_time by blast
    next
      case None
      with Inr assms(1) found show ?thesis
        by (auto simp: execute_single_trade_def Let_def make_result_fields
            split: list.splits)
    qed
  qed
  moreover from found have "spread_from (spread_selector bt) (all_ticks filtered_data) spread"
    by (rule find_spread_found)
  then obtain t where "t \<in> set (all_ticks filtered_data)"
      "entry_timestamp spread = tick_timestamp t"
    unfolding spread_from_def list_ex_iff by blast
  ultimately show ?thesis
    using timestamps_match_ticks [OF assms(2)] by simp
qed

lemma run_loop_apart:
  assumes "timestamps_match historical_data"
  shows "trades_apart 60
           (fst (run_loop lib bt historical_data max_iterations current_start_time iter))
     \<and> (case fst (run_loop lib bt historical_data max_iterations current_start_time iter) of
           [] \<Rightarrow> True
         | r # rs \<Rightarrow> current_start_time \<le> entry_time r)"
  using assms
proof (induction lib bt historical_data max_iterations current_start_time iter
    rule: run_loop.induct)
  case (1 lib bt historical_data max_iterations current_start_time iter)
  let ?fd = "filter (\<lambda>(ts, d). current_start_time \<le> ts) historical_data"
  note unfold = run_loop.simps [of lib bt historical_data max_iterations current_start_time iter]
  show ?case
  proof (cases "iter \<le> max_iterations \<and> ?fd \<noteq> []")
    case False
    then have "fst (run_loop lib bt historical_data max_iterations current_start_time iter)
        = []"
      by (subst unfold) (auto simp: Let_def)
    then show ?thesis by simp
  next
    case True
    show ?thesis
    proof (cases "execute_single_trade lib bt ?fd")
      case (Inl raised)
      with True have
        "fst (run_loop lib bt historical_data max_iterations current_start_time iter) = []"
        by (subst unfold) (simp add: Let_def)
      then show ?thesis by simp
    next
      case (Inr outcome)
      show ?thesis
      proof (cases outcome)
        case None
        with True Inr have
          "fst (run_loop lib bt historical_data max_iterations current_start_time iter) = []"
          by (subst unfold) (simp add: Let_def)
        then show ?thesis by simp
      next
        case (Some r)
        let ?rest = "fst (run_loop lib bt historical_data max_iterations (exit_time r + 60)
                            (iter + 1))"
        from True Inr Some have eq:
          "fst (run_loop lib bt historical_data max_iterations current_start_time iter)
             = r\<lparr>iteration := Some iter\<rparr> # ?rest"
          by (subst unfold) (simp add: Let_def split: prod.splits)
        have ih: "trades_apart 60 ?rest
            \<and> (case ?rest of [] \<Rightarrow> True | r' # rs \<Rightarrow> exit_time r + 60 \<le> entry_time r')"
          using "1.IH" [of ?fd outcome r] True Inr Some "1.prems" by simp
        have "timestamps_match ?fd"
          using "1.prems" by (rule timestamps_match_filter)
        with Inr Some have "entry_time r \<in> fst ` set ?fd"
          using execute_entry_time by blast
        then have entry: "current_start_time \<le> entry_time r"
          by auto
        from ih have "trades_apart 60 (r\<lparr>iteration := Some iter\<rparr> # ?rest)"
          by (cases ?rest) simp_all
        with entry show ?thesis
          by (simp add: eq)
      qed
    qed
  qed
qed

lemma trades_apart_nth:
  "trades_apart gap rs \<Longrightarrow> Suc i < length rs \<Longrightarrow>
   exit_time (rs ! i) + gap \<le> entry_time (rs ! Suc i)"
proof (induction gap rs arbitrary: i rule: trades_apart.induct)
  case (1 gap r1 r2 rs)
  then show ?case by (cases i) simp_all
qed simp_all

text \<open>
  C8. When every tick stands under its own timestamp, as the data client builds the
  dictionary, the trades of a run are disjoint in time: each trade is entered at least
  60 seconds after, hence strictly after, the exit of the trade before it. The search
  for the next spread reads only timestamps from the cursor on, and the cursor is the
  previous exit plus one minute. This holds of the results that \<open>run\<close> has
  accumulated whether the loop ends normally or by an exception.
\<close>

theorem disjoint_trades:
  "timestamps_match historical_data \<longrightarrow>
     trades_apart 60 (fst (run lib bt historical_data max_iterations))
     \<and> (\<forall>i. Suc i < length (fst (run lib bt historical_data max_iterations)) \<longrightarrow>
           exit_time (fst (run lib bt historical_data max_iterations) ! i)
             < entry_time (fst (run lib bt historical_data max_iterations) ! Suc i))"
proof
  assume wf: "timestamps_match historical_data"
  have apart: "trades_apart 60 (fst (run lib bt historical_data max_iterations))"
    using run_loop_apart [OF wf] by (simp add: run_def split: list.splits)
  have "exit_time (fst (run lib bt historical_data max_iterations) ! i)
          < entry_time (fst (run lib bt historical_data max_iterations) ! Suc i)"
    if "Suc i < length (fst (run lib bt historical_data max_iterations))" for i
    using trades_apart_nth [OF apart that] by simp
  with apart show "trades_apart 60 (fst (run lib bt historical_data max_iterations))
     \<and> (\<forall>i. Suc i < length (fst (run lib bt historical_data max_iterations)) \<longrightarrow>
           exit_time (fst (run lib bt historical_data max_iterations) ! i)
             < entry_time (fst (run lib bt historical_data max_iterations) ! Suc i))"
    by blast
qed

lemma two_trade_first_spread:
  "find_spread sample_scipy (expiry_selector (2, 4)) two_trade_data Put
     = Inr (Some (two_trade_spread 60))"
  by (simp add: two_trade_data_def two_trade_later_def find_spread_def process_tick_def quote_def
      calculate_delta_def time_to_expiry_def expiry_selector_def in_range_def assign_leg_def
      validate_spread_def create_option_leg_def two_trade_spread_def two_trade_leg_def)

lemma two_trade_second_spread:
  "find_spread sample_scipy (expiry_selector (2, 4)) two_trade_later Put
     = Inr (Some (two_trade_spread 180))"
  by (simp add: two_trade_data_def two_trade_later_def find_spread_def process_tick_def quote_def
      calculate_delta_def time_to_expiry_def expiry_selector_def in_range_def assign_leg_def
      validate_spread_def create_option_leg_def two_trade_spread_def two_trade_leg_def)

lemma two_trade_thresholds:
  "fscale (initial_total_delta (two_trade_spread ts)) (5 / 2) = Num (5 / 2)"
  "credit_received (two_trade_spread ts) = 3 / 2"
  by (simp_all add: initial_total_delta_def two_trade_spread_def two_trade_leg_def)

lemma two_trade_first_exit:
  "monitor sample_scipy two_trade_backtester (two_trade_spread 60) (3 / 4) (Num (5 / 2))
     two_trade_data
     = Inr (Some (make_result (two_trade_spread 60) TargetProfit 100 120))"
  by (simp add: two_trade_data_def two_trade_later_def two_trade_backtester_def
      two_trade_spread_def
      two_trade_leg_def calculate_current_spread_metrics_def locate_tick_def quote_def
      truthy_def calculate_delta_def time_to_expiry_def check_exit_conditions_def fge_def)

lemma two_trade_second_exit:
  "monitor sample_scipy two_trade_backtester (two_trade_spread 180) (3 / 4) (Num (5 / 2))
     two_trade_later
     = Inr (Some (make_result (two_trade_spread 180) AssignmentRisk 50 240))"
  by (simp add: two_trade_data_def two_trade_later_def two_trade_backtester_def
      two_trade_spread_def
      two_trade_leg_def calculate_current_spread_metrics_def locate_tick_def quote_def
      truthy_def calculate_delta_def time_to_expiry_def check_exit_conditions_def fge_def)

lemma two_trade_first:
  "execute_single_trade sample_scipy two_trade_backtester two_trade_data
     = Inr (Some (make_result (two_trade_spread 60) TargetProfit 100 120))"
  using two_trade_first_exit
  by (simp add: execute_single_trade_def two_trade_first_spread two_trade_thresholds
      two_trade_backtester_def)

lemma two_trade_second:
  "execute_single_trade sample_scipy two_trade_backtester two_trade_later
     = Inr (Some (make_result (two_trade_spread 180) AssignmentRisk 50 240))"
  using two_trade_second_exit
  by (simp add: execute_single_trade_def two_trade_second_spread two_trade_thresholds
      two_trade_backtester_def)

lemma two_trade_filters:
  "filter (\<lambda>(ts, d). 60 \<le> ts) two_trade_data = two_trade_data"
  "filter (\<lambda>(ts, d). 180 \<le> ts) two_trade_data = two_trade_later"
  "filter (\<lambda>(ts, d). 300 \<le> ts) two_trade_data = []"
  "two_trade_data \<noteq> []" "two_trade_later \<noteq> []"
  by (simp_all add: two_trade_data_def two_trade_later_def)

lemma two_trade_run:
  "map (\<lambda>r. (entry_time r, exit_time r, status r))
     (fst (run sample_scipy two_trade_backtester two_trade_data 5000))
     = [(60, 120, TargetProfit), (180, 240, AssignmentRisk)]
   \<and> snd (run sample_scipy two_trade_backtester two_trade_data 5000) = None"
proof -
  have start: "map fst two_trade_data = 60 # [120, 180, 240]"
    by (simp add: two_trade_data_def two_trade_later_def)
  have exits: "exit_time (make_result (two_trade_spread 60) TargetProfit 100 120) = 120"
    "exit_time (make_result (two_trade_spread 180) AssignmentRisk 50 240) = 240"
    by (simp_all add: make_result_def)
  have third: "run_loop sample_scipy two_trade_backtester two_trade_data 5000 300 n
      = ([], None)"
    for n
    by (subst run_loop.simps) (simp add: two_trade_filters Let_def)
  have second: "run_loop sample_scipy two_trade_backtester two_trade_data 5000 180 n
      = ([(make_result (two_trade_spread 180) AssignmentRisk 50 240)\<lparr>iteration := Some n\<rparr>],
         None)"
    if "n \<le> 5000" for n
    using that
    by (subst run_loop.simps) (simp add: two_trade_filters two_trade_second exits third Let_def)
  have first: "run_loop sample_scipy two_trade_backtester two_trade_data 5000 60 1
      = ([(make_result (two_trade_spread 60) TargetProfit 100 120)\<lparr>iteration := Some 1\<rparr>,
          (make_result (two_trade_spread 180) AssignmentRisk 50 240)
            \<lparr>iteration := Some (1 + 1)\<rparr>], None)"
    by (subst run_loop.simps) (simp add: two_trade_filters two_trade_first exits second Let_def)
  show ?thesis
    using first by (simp add: run_def start make_result_def two_trade_spread_def)
qed

theorem disjoint_trades_witness:
  "timestamps_match two_trade_data
   \<and> map (\<lambda>r. (entry_time r, exit_time r))
       (fst (run sample_scipy two_trade_backtester two_trade_data 5000))
     = [(60, 120), (180, 240)]
   \<and> trades_apart 60 (fst (run sample_scipy two_trade_backtester two_trade_data 5000))
   \<and> exit_time (fst (run sample_scipy two_trade_backtester two_trade_data 5000) ! 0)
       < entry_time (fst (run sample_scipy two_trade_backtester two_trade_data 5000) ! 1)"
proof -
  let ?results = "fst (run sample_scipy two_trade_backtester two_trade_data 5000)"
  have wf: "timestamps_match two_trade_data"
    by (simp add: timestamps_match_def two_trade_data_def two_trade_later_def quote_def)
  have run: "map (\<lambda>r. (entry_time r, exit_time r, status r)) ?results
      = [(60, 120, TargetProfit), (180, 240, AssignmentRisk)]"
    using two_trade_run by (rule conjunct1)
  have "map (\<lambda>r. (entry_time r, exit_time r)) ?results
     = map (\<lambda>(a, b, c). (a, b)) (map (\<lambda>r. (entry_time r, exit_time r, status r)) ?results)"
    by simp
  then have times: "map (\<lambda>r. (entry_time r, exit_time r)) ?results = [(60, 120), (180, 240)]"
    by (simp only: run) simp
  have "length (map (\<lambda>r. (entry_time r, exit_time r, status r)) ?results) = 2"
    by (simp only: run) simp
  then have len: "length ?results = 2"
    by simp
  from disjoint_trades [where historical_data = two_trade_data and lib = sample_scipy
      and bt = two_trade_backtester and max_iterations = 5000] wf
  have "trades_apart 60 ?results"
    and "\<forall>i. Suc i < length ?results \<longrightarrow>
           exit_time (?results ! i) < entry_time (?results ! Suc i)"
    by blast+
  with wf times len show ?thesis
    by simp
qed

section \<open>Delta bounds\<close>

text \<open>
  With a distribution function between 0 and 1, every delta that \<open>calculate_delta\<close>
  returns is NaN or lies in the interval of its option type: \<open>[-1, 0]\<close> for a put,
  \<open>[0, 1]\<close> for a call. An infinite \<open>d1\<close> (implied volatility \<open>0.0\<close>, numerator
  not zero) gives the end points.
\<close>

lemma cdf_range:
  assumes "\<forall>x. 0 \<le> norm_cdf lib x \<and> norm_cdf lib x \<le> 1"
  shows "cdf lib v = NaN \<or> (\<exists>x. cdf lib v = Num x \<and> 0 \<le> x \<and> x \<le> 1)"
  using assms by (cases v) auto

lemma delta_in_bounds_or_nan:
  assumes "\<forall>x. 0 \<le> norm_cdf lib x \<and> norm_cdf lib x \<le> 1"
    and "calculate_delta lib price strike expiry_timestamp underlying rate kind
           current_timestamp = Inr (Some d)"
  shows "d = NaN
     \<or> (\<exists>x. d = Num x \<and> (if kind = Put then - 1 \<le> x \<and> x \<le> 0 else 0 \<le> x \<and> x \<le> 1))"
proof (cases "time_to_expiry expiry_timestamp current_timestamp = 1 / 1000000")
  case True
  with assms(2) show ?thesis
    by (auto simp: calculate_delta_def split: if_splits)
next
  case False
  with assms(2) obtain v where d: "d = (if kind = Call then cdf lib v else fneg (cdf lib (fneg v)))"
    by (auto simp: calculate_delta_def Let_def split: sum.splits option.splits)
  show ?thesis
  proof (cases kind)
    case Call
    with d cdf_range [OF assms(1), of v] show ?thesis by auto
  next
    case Put
    with d cdf_range [OF assms(1), of "fneg v"] show ?thesis by auto
  qed
qed

text \<open>NaN is returned only when the implied volatility is \<open>0.0\<close> and the numerator
  of \<open>d1\<close> is zero as well.\<close>

lemma cdf_nan: "cdf lib v = NaN \<Longrightarrow> v = NaN"
  by (cases v) auto

lemma fneg_nan: "fneg v = NaN \<Longrightarrow> v = NaN"
  by (cases v) auto

lemma fdiv_nan: "fdiv a b = NaN \<Longrightarrow> a = 0 \<and> b = 0"
  by (auto simp: fdiv_def split: if_splits)

lemma delta_nan_only_at_zero_volatility:
  assumes "calculate_delta lib price strike expiry_timestamp underlying rate kind
             current_timestamp = Inr (Some NaN)"
  shows "calculate_implied_volatility lib price underlying strike
           (time_to_expiry expiry_timestamp current_timestamp) rate kind = Inr (Some 0)
     \<and> ln (underlying / strike)
         + rate * time_to_expiry expiry_timestamp current_timestamp = 0"
proof -
  let ?T = "time_to_expiry expiry_timestamp current_timestamp"
  have pos: "0 < ?T" by (simp add: time_to_expiry_def max_def)
  from assms have "\<exists>iv.
      calculate_implied_volatility lib price underlying strike ?T rate kind = Inr (Some iv)
      \<and> ln (underlying / strike) + (rate + 0.5 * iv ^ 2) * ?T = 0 \<and> iv * sqrt ?T = 0"
    by (auto simp: calculate_delta_def Let_def py_div_def
        split: if_splits sum.splits option.splits
        dest!: fneg_nan cdf_nan fdiv_nan)
  then obtain iv where
    iv: "calculate_implied_volatility lib price underlying strike ?T rate kind = Inr (Some iv)"
    and n: "ln (underlying / strike) + (rate + 0.5 * iv ^ 2) * ?T = 0"
    and z: "iv * sqrt ?T = 0"
    by blast
  from z pos have "iv = 0" by simp
  with iv n show ?thesis by simp
qed

text \<open>
  C9 fails on the code at such an input. A put (or call) at the money, one day before
  expiry, rate 0, quoted at 0: the implied volatility is \<open>0.0\<close>, \<open>d1\<close> is
  \<open>0.0 / 0.0\<close>, and the delta returned is NaN, which is in neither interval.
\<close>

theorem delta_nan_at_zero_volatility:
  "calculate_delta lib 0 100 86400 100 0 Put 0 = Inr (Some NaN)
   \<and> \<not> in_range (- 1, 0) NaN
   \<and> calculate_delta lib 0 100 86400 100 0 Call 0 = Inr (Some NaN)
   \<and> \<not> in_range (0, 1) NaN"
  by (simp add: calculate_delta_def time_to_expiry_def calculate_implied_volatility_def
      intrinsic_value_def py_div_def fdiv_def in_range_def)

end
